theory Spec2Isabelle
  imports Complex_Main "HOL-Library.Char_ord" "HOL-Library.List_Lexorder"
begin

section \<open>JavaScript strings\<close>

text \<open>
  A JavaScript string is a sequence of UTF-16 code units. It is modelled as a \<open>string\<close>
  whose characters are the code units below 256 (ASCII and Latin-1), which is where the
  functions below are exact: white space, digits, line terminators and letter case are the
  ones ECMAScript gives to these code units. Numbers that the code only counts with are
  modelled as unbounded \<open>int\<close> (JavaScript numbers are exact on integers up to \<open>2^53\<close>).
\<close>

definition isWhiteSpace :: "char \<Rightarrow> bool" where
  \<comment> \<open>what \<open>String.prototype.trim\<close> strips and the regular expression class \<open>\s\<close> matches:
     TAB, LF, VT, FF, CR, SPACE, NBSP\<close>
  "isWhiteSpace c =
     (c \<in> set [CHR 0x09, CHR 0x0A, CHR 0x0B, CHR 0x0C, CHR 0x0D, CHR 0x20, CHR 0xA0])"

definition isLineTerminator :: "char \<Rightarrow> bool" where
  \<comment> \<open>the characters the regular expression atom \<open>.\<close> does not match\<close>
  "isLineTerminator c = (c \<in> set [CHR 0x0A, CHR 0x0D])"

definition isDigit :: "char \<Rightarrow> bool" where
  \<comment> \<open>the regular expression class \<open>\d\<close>\<close>
  "isDigit c = (c \<in> set ''0123456789'')"

definition digitValue :: "char \<Rightarrow> int" where
  "digitValue c = int (of_char c) - 48"

definition toLowerChar :: "char \<Rightarrow> char" where
  "toLowerChar c =
     (let n = (of_char c :: nat)
      in if (65 \<le> n \<and> n \<le> 90) \<or> (192 \<le> n \<and> n \<le> 222 \<and> n \<noteq> 215)
         then char_of (n + 32) else c)"

definition toLowerCase :: "string \<Rightarrow> string" where
  "toLowerCase s = map toLowerChar s"

definition trim :: "string \<Rightarrow> string" where
  "trim s = rev (dropWhile isWhiteSpace (rev (dropWhile isWhiteSpace s)))"

fun startsWith :: "string \<Rightarrow> string \<Rightarrow> bool" where
  "startsWith s [] = True"
| "startsWith [] (p # ps) = False"
| "startsWith (c # cs) (p # ps) = (c = p \<and> startsWith cs ps)"

fun str_includes :: "string \<Rightarrow> string \<Rightarrow> bool" where
  \<comment> \<open>\<open>String.prototype.includes\<close>: the second string occurs as a substring\<close>
  "str_includes [] w = startsWith [] w"
| "str_includes (c # cs) w = (startsWith (c # cs) w \<or> str_includes cs w)"

fun split_newline :: "string \<Rightarrow> string list" where
  \<comment> \<open>\<open>deckText.split('\n')\<close>: the empty text gives one empty line\<close>
  "split_newline [] = [[]]"
| "split_newline (c # cs) =
     (if c = CHR 0x0A then [] # split_newline cs
      else (case split_newline cs of
              [] \<Rightarrow> [[c]]
            | l # ls \<Rightarrow> (c # l) # ls))"

definition join_newline :: "string list \<Rightarrow> string" where
  \<comment> \<open>\<open>lines.join('\n')\<close>\<close>
  "join_newline ls = (case ls of [] \<Rightarrow> [] | l # rest \<Rightarrow> foldl (\<lambda>acc x. acc @ [CHR 0x0A] @ x) l rest)"

definition parseInt :: "string \<Rightarrow> int" where
  \<comment> \<open>\<open>parseInt(s, 10)\<close> on a string of decimal digits, the only strings the parser
     passes to it. The built-in returns a double: this value is the one it returns below
     \<open>2^53\<close>, and above it the built-in rounds.\<close>
  "parseInt ds = foldl (\<lambda>n c. 10 * n + digitValue c) 0 ds"

section \<open>The deck list parser (src/ui/messages.js)\<close>

record CardEntry =
  quantity :: int
  name :: string

definition startsWithDigit :: "string \<Rightarrow> bool" where
  \<comment> \<open>\<open>trimmed.match(/^\d/)\<close>\<close>
  "startsWithDigit s = (case s of [] \<Rightarrow> False | c # _ \<Rightarrow> isDigit c)"

definition sectionWords :: "string list" where
  "sectionWords = [''commander'', ''creatures'', ''lands'', ''artifacts'', ''enchantments'',
     ''instants'', ''sorceries'', ''planeswalkers'', ''strategy'', ''win condition'']"

definition isSectionLabel :: "string \<Rightarrow> bool" where
  \<comment> \<open>the ten \<open>if (trimmed.toLowerCase().includes(w) && !trimmed.match(/^\d/)) continue\<close>\<close>
  "isSectionLabel trimmed =
     list_ex (\<lambda>w. str_includes (toLowerCase trimmed) w \<and> \<not> startsWithDigit trimmed) sectionWords"

definition matchCardLine :: "string \<Rightarrow> (string \<times> string) option" where
  \<comment> \<open>\<open>trimmed.match(/^(\d+)x?\s+(.+)$/i)\<close>: the two capture groups, or \<open>None\<close> for
     \<open>null\<close>. The digits and the white space are matched greedily and giving any of them
     back never helps: a digit is neither \<open>x\<close> nor white space, and the rest must hold no
     line terminator whichever white space is given back to it.\<close>
  "matchCardLine s =
     (let digits = takeWhile isDigit s;
          r1 = dropWhile isDigit s;
          r2 = (case r1 of [] \<Rightarrow> r1
                | c # cs \<Rightarrow> if c = CHR ''x'' \<or> c = CHR ''X'' then cs else r1);
          ws = takeWhile isWhiteSpace r2;
          r3 = dropWhile isWhiteSpace r2
      in if digits \<noteq> [] \<and> ws \<noteq> [] \<and> r3 \<noteq> [] \<and> \<not> list_ex isLineTerminator r3
         then Some (digits, r3) else None)"

definition parseLine :: "string \<Rightarrow> CardEntry option" where
  \<comment> \<open>the body of the loop over the lines: the entry pushed, or \<open>None\<close> when the line is
     skipped\<close>
  "parseLine line =
     (let trimmed = trim line
      in if trimmed = [] then None
         else if startsWith trimmed ''#'' \<or> startsWith trimmed ''**'' \<or> startsWith trimmed ''###''
           then None
         else if isSectionLabel trimmed then None
         else (case matchCardLine trimmed of
                 Some (q, n) \<Rightarrow> Some \<lparr>quantity = parseInt q, name = trim n\<rparr>
               | None \<Rightarrow>
                   if trimmed \<noteq> [] \<and> \<not> str_includes trimmed '':'' \<and> length trimmed > 2
                   then Some \<lparr>quantity = 1, name = trimmed\<rparr>
                   else None))"

primrec parseLines :: "string list \<Rightarrow> CardEntry list \<Rightarrow> CardEntry list" where
  "parseLines [] cards = cards"
| "parseLines (line # lines) cards =
     parseLines lines (case parseLine line of None \<Rightarrow> cards | Some entry \<Rightarrow> cards @ [entry])"

definition parseDeckList :: "string \<Rightarrow> CardEntry list" where
  "parseDeckList deckText = parseLines (split_newline deckText) []"

definition formatDeckList :: "CardEntry list \<Rightarrow> string" where
  \<comment> \<open>\<open>cards.map(c => `1x ${c.name}`).join('\n')\<close>\<close>
  "formatDeckList cards = join_newline (map (\<lambda>c. ''1x '' @ name c) cards)"

section \<open>Plain objects used as counters\<close>

text \<open>
  The validator and the analyzers count in object literals (\<open>const cardCounts = {}\<close>).
  Such an object has its own properties, kept in creation order, and inherits the members
  of \<open>Object.prototype\<close>: reading \<open>cardCounts[k]\<close> for a key it does not own gives the
  inherited member when \<open>k\<close> names one. The values met here are numbers, strings, and the
  inherited members (functions, and for \<open>__proto__\<close> the prototype object itself), which
  are all truthy and turn into a string under \<open>+\<close>: a built-in function into its source
  text (as V8 prints it), the prototype object into \<open>[object Object]\<close>.
\<close>

datatype jsval = Num int | Str string | Obj string

type_synonym jsobj = "(string \<times> jsval) list"

definition nativeFunction :: "string \<Rightarrow> string" where
  "nativeFunction f = ''function '' @ f @ ''() { [native code] }''"

definition ObjectPrototype :: "(string \<times> jsval) list" where
  "ObjectPrototype =
     [(''constructor'', Obj (nativeFunction ''Object'')),
      (''__defineGetter__'', Obj (nativeFunction ''__defineGetter__'')),
      (''__defineSetter__'', Obj (nativeFunction ''__defineSetter__'')),
      (''hasOwnProperty'', Obj (nativeFunction ''hasOwnProperty'')),
      (''__lookupGetter__'', Obj (nativeFunction ''__lookupGetter__'')),
      (''__lookupSetter__'', Obj (nativeFunction ''__lookupSetter__'')),
      (''isPrototypeOf'', Obj (nativeFunction ''isPrototypeOf'')),
      (''propertyIsEnumerable'', Obj (nativeFunction ''propertyIsEnumerable'')),
      (''toString'', Obj (nativeFunction ''toString'')),
      (''valueOf'', Obj (nativeFunction ''valueOf'')),
      (''__proto__'', Obj ''[object Object]''),
      (''toLocaleString'', Obj (nativeFunction ''toLocaleString''))]"

definition getProp :: "jsobj \<Rightarrow> string \<Rightarrow> jsval option" where
  \<comment> \<open>\<open>obj[k]\<close>: the own property, else the inherited member, else \<open>undefined\<close> (\<open>None\<close>)\<close>
  "getProp obj k = (case map_of obj k of Some v \<Rightarrow> Some v | None \<Rightarrow> map_of ObjectPrototype k)"

primrec putOwn :: "string \<Rightarrow> jsval \<Rightarrow> jsobj \<Rightarrow> jsobj" where
  "putOwn k v [] = [(k, v)]"
| "putOwn k v (p # ps) = (if fst p = k then (k, v) # ps else p # putOwn k v ps)"

definition setProp :: "jsobj \<Rightarrow> string \<Rightarrow> jsval \<Rightarrow> jsobj" where
  \<comment> \<open>\<open>obj[k] = v\<close> for a number or string \<open>v\<close>: an own property is updated in place or
     created last; \<open>__proto__\<close> is an inherited setter, which ignores a value that is not
     an object and creates no property\<close>
  "setProp obj k v = (if k = ''__proto__'' then obj else putOwn k v obj)"

definition truthy :: "jsval \<Rightarrow> bool" where
  "truthy v = (case v of Num n \<Rightarrow> n \<noteq> 0 | Str s \<Rightarrow> s \<noteq> [] | Obj _ \<Rightarrow> True)"

fun natToString :: "nat \<Rightarrow> string" where
  "natToString n = (if n < 10 then [char_of (48 + n)]
                    else natToString (n div 10) @ [char_of (48 + n mod 10)])"

definition numberToString :: "int \<Rightarrow> string" where
  \<comment> \<open>\<open>String(n)\<close> for an integer in plain decimal notation, which is what the
     built-in gives below \<open>10^21\<close>; from there on it switches to exponent notation\<close>
  "numberToString n = (if n < 0 then ''-'' @ natToString (nat (- n)) else natToString (nat n))"

definition toStr :: "jsval \<Rightarrow> string" where
  \<comment> \<open>the text of a value inside a template literal or under \<open>+\<close> with a string\<close>
  "toStr v = (case v of Num n \<Rightarrow> numberToString n | Str s \<Rightarrow> s | Obj s \<Rightarrow> s)"

definition plusNumber :: "jsval \<Rightarrow> int \<Rightarrow> jsval" where
  \<comment> \<open>\<open>v + q\<close> for a number \<open>q\<close>: addition of numbers, else concatenation of strings\<close>
  "plusNumber v q = (case v of Num n \<Rightarrow> Num (n + q) | _ \<Rightarrow> Str (toStr v @ numberToString q))"

definition greaterThanOne :: "jsval \<Rightarrow> bool" where
  \<comment> \<open>\<open>count > 1\<close>. A string is converted to a number first; the strings that are stored
     as counts start with the text of an inherited member, convert to \<open>NaN\<close>, and every
     comparison with \<open>NaN\<close> is false.\<close>
  "greaterThanOne v = (case v of Num n \<Rightarrow> n > 1 | _ \<Rightarrow> False)"

definition isArrayIndex :: "string \<Rightarrow> bool" where
  \<comment> \<open>a canonical numeric string of an integer from 0 to \<open>2^32 - 2\<close>\<close>
  "isArrayIndex k =
     (list_all isDigit k \<and> (case k of [] \<Rightarrow> False | c # cs \<Rightarrow> c \<noteq> CHR ''0'' \<or> cs = [])
      \<and> parseInt k \<le> 4294967294)"

definition Object_entries :: "jsobj \<Rightarrow> (string \<times> jsval) list" where
  \<comment> \<open>\<open>Object.entries(obj)\<close>: the own properties, array indices first in ascending
     numeric order, then the other keys in creation order\<close>
  "Object_entries obj =
     sort_key (\<lambda>p. parseInt (fst p)) (filter (\<lambda>p. isArrayIndex (fst p)) obj)
     @ filter (\<lambda>p. \<not> isArrayIndex (fst p)) obj"

definition Object_keys :: "jsobj \<Rightarrow> string list" where
  "Object_keys obj = map fst (Object_entries obj)"

section \<open>The deck validator (src/ui/messages.js)\<close>

definition BASIC_LANDS :: "string list" where
  "BASIC_LANDS = [''plains'', ''island'', ''swamp'', ''mountain'', ''forest'', ''wastes'',
     ''snow-covered plains'', ''snow-covered island'', ''snow-covered swamp'',
     ''snow-covered mountain'', ''snow-covered forest'']"

definition isBasicLand :: "string \<Rightarrow> bool" where
  "isBasicLand cardName = (toLowerCase cardName \<in> set BASIC_LANDS)"

record ValidateOptions =
  expectedSize :: "int option"
  isMonoColor :: "bool option"

record Duplicate =
  dup_name :: string
  dup_count :: jsval

record ValidationResult =
  isValid :: bool
  totalCards :: int
  uniqueCards :: nat
  landCount :: int
  hasDuplicates :: bool
  duplicates :: "Duplicate list"
  errors :: "string list"
  warnings :: "string list"
  cards :: "CardEntry list"

definition countCard :: "jsobj \<Rightarrow> CardEntry \<Rightarrow> jsobj" where
  \<comment> \<open>\<open>if (!isBasicLand(card.name)) { if (cardCounts[nameLower]) cardCounts[nameLower] +=
     card.quantity; else cardCounts[nameLower] = card.quantity; }\<close>\<close>
  "countCard cardCounts entry =
     (let nameLower = toLowerCase (name entry)
      in if isBasicLand (name entry) then cardCounts
         else (case getProp cardCounts nameLower of
                 Some v \<Rightarrow>
                   if truthy v then setProp cardCounts nameLower (plusNumber v (quantity entry))
                   else setProp cardCounts nameLower (Num (quantity entry))
               | None \<Rightarrow> setProp cardCounts nameLower (Num (quantity entry))))"

definition looksLikeLand :: "string \<Rightarrow> bool" where
  "looksLikeLand nameLower =
     (str_includes nameLower ''land'' \<or> nameLower \<in> set BASIC_LANDS
      \<or> str_includes nameLower ''temple'' \<or> str_includes nameLower ''fountain''
      \<or> str_includes nameLower ''shock'' \<or> str_includes nameLower ''gate'')"

primrec countCards :: "CardEntry list \<Rightarrow> jsobj \<times> int \<times> int \<Rightarrow> jsobj \<times> int \<times> int" where
  \<comment> \<open>the first loop; the state is \<open>(cardCounts, totalCards, landCount)\<close>\<close>
  "countCards [] st = st"
| "countCards (entry # rest) st =
     (case st of (cardCounts, tot, lands) \<Rightarrow>
        countCards rest
          (countCard cardCounts entry,
           tot + quantity entry,
           (if looksLikeLand (toLowerCase (name entry)) then lands + quantity entry else lands)))"

definition duplicateError :: "string \<Rightarrow> jsval \<Rightarrow> string" where
  "duplicateError nm count =
     ''Duplicate card: '' @ [CHR 0x22] @ nm @ [CHR 0x22] @ '' appears '' @ toStr count
     @ '' times (singleton format allows only 1)''"

primrec findDuplicates ::
  "(string \<times> jsval) list \<Rightarrow> Duplicate list \<times> string list \<Rightarrow> Duplicate list \<times> string list" where
  \<comment> \<open>the second loop; the state is \<open>(duplicates, errors)\<close>\<close>
  "findDuplicates [] st = st"
| "findDuplicates (p # ps) st =
     (case st of (dups, errs) \<Rightarrow>
        findDuplicates ps
          (if greaterThanOne (snd p)
           then (dups @ [\<lparr>dup_name = fst p, dup_count = snd p\<rparr>],
                 errs @ [duplicateError (fst p) (snd p)])
           else (dups, errs)))"

definition sizeErrors :: "int \<Rightarrow> int \<Rightarrow> string list" where
  "sizeErrors tot expected =
     (if tot \<noteq> expected then
        (if tot < expected
         then [''Deck has only '' @ numberToString tot @ '' cards (needs exactly ''
               @ numberToString expected @ '')'']
         else [''Deck has '' @ numberToString tot @ '' cards (maximum is ''
               @ numberToString expected @ '')''])
      else [])"

definition landWarnings :: "int \<Rightarrow> int \<Rightarrow> string list" where
  "landWarnings lands expectedLands =
     (if lands < expectedLands - 5
      then [''Deck may have too few lands: ~'' @ numberToString lands
            @ '' detected (recommended: '' @ numberToString expectedLands @ '')'']
      else [])"

definition validateParsedDeck :: "CardEntry list \<Rightarrow> ValidateOptions \<Rightarrow> ValidationResult" where
  "validateParsedDeck deck options =
     (let expected = (case expectedSize options of None \<Rightarrow> 100 | Some n \<Rightarrow> n);
          mono = (case isMonoColor options of None \<Rightarrow> False | Some b \<Rightarrow> b);
          (cardCounts, tot, lands) = countCards deck ([], 0, 0);
          (dups, errs1) = findDuplicates (Object_entries cardCounts) ([], []);
          errs = errs1 @ sizeErrors tot expected;
          expectedLands = (if mono then 32 else 36);
          warns = landWarnings lands expectedLands
      in \<lparr>isValid = (length errs = 0),
          totalCards = tot,
          uniqueCards = length (Object_keys cardCounts),
          landCount = lands,
          hasDuplicates = (length dups > 0),
          duplicates = dups,
          errors = errs,
          warnings = warns,
          cards = deck\<rparr>)"

definition validateDeckList :: "string \<Rightarrow> ValidateOptions \<Rightarrow> ValidationResult" where
  "validateDeckList deckText options = validateParsedDeck (parseDeckList deckText) options"

primrec removeDuplicates_loop ::
  "CardEntry list \<Rightarrow> string set \<times> CardEntry list \<Rightarrow> string set \<times> CardEntry list" where
  \<comment> \<open>the loop of \<open>removeDuplicates\<close>; the state is \<open>(seen, result)\<close>\<close>
  "removeDuplicates_loop [] st = st"
| "removeDuplicates_loop (entry # rest) st =
     (case st of (seen, result) \<Rightarrow>
        (let nameLower = toLowerCase (name entry)
         in if isBasicLand (name entry) then removeDuplicates_loop rest (seen, result @ [entry])
            else if nameLower \<notin> seen
              then removeDuplicates_loop rest
                     (insert nameLower seen, result @ [entry\<lparr>quantity := 1\<rparr>])
            else removeDuplicates_loop rest (seen, result)))"

definition removeDuplicates :: "CardEntry list \<Rightarrow> CardEntry list" where
  "removeDuplicates deck = snd (removeDuplicates_loop deck ({}, []))"

section \<open>Meta trends (MetaAnalyzer.identifyTrends, src/learning/profileAnalyzer.js)\<close>

text \<open>
  \<open>metaShare\<close> is the display string of the scraper (\<open>None\<close> when the field is absent); a
  numeric share stands for the text \<open>String\<close> gives it. \<open>parseFloat\<close> is a built-in whose
  result is a double: the trend classification takes it as a parameter and only compares
  its result with 0 and 5.
\<close>

datatype jsnumber = NaN | Number rat | PlusInfinity | MinusInfinity

record MetaDeckRecord =
  md_name :: string
  url :: string
  metaShare :: "string option"

record Trends =
  popular :: "string list"
  emerging :: "string list"
  declining :: "string list"

definition shareStr :: "MetaDeckRecord \<Rightarrow> string" where
  \<comment> \<open>\<open>String(d.metaShare || '0').replace('%', '').trim()\<close>: \<open>replace\<close> with a string
     pattern removes the first occurrence only\<close>
  "shareStr d =
     trim (remove1 (CHR ''%'')
       (case metaShare d of None \<Rightarrow> ''0'' | Some s \<Rightarrow> if s = [] then ''0'' else s))"

definition isLowShare :: "(string \<Rightarrow> jsnumber) \<Rightarrow> MetaDeckRecord \<Rightarrow> bool" where
  \<comment> \<open>\<open>!isNaN(share) && share > 0 && share < 5\<close>\<close>
  "isLowShare parseFloat d =
     (case parseFloat (shareStr d) of Number share \<Rightarrow> 0 < share \<and> share < 5 | _ \<Rightarrow> False)"

definition identifyTrends :: "(string \<Rightarrow> jsnumber) \<Rightarrow> MetaDeckRecord list \<Rightarrow> Trends" where
  "identifyTrends parseFloat metaDecks =
     (let lowShareDecks = filter (isLowShare parseFloat) metaDecks
      in \<lparr>popular = (if length metaDecks \<ge> 3 then map md_name (take 3 metaDecks) else []),
          emerging = (if length lowShareDecks > 0 then map md_name (take 3 lowShareDecks) else []),
          declining = []\<rparr>)"

definition parseExponent :: "string \<Rightarrow> int" where
  \<comment> \<open>the exponent part \<open>e\<close>, \<open>e+\<close> or \<open>e-\<close> with digits, when the text starts with one\<close>
  "parseExponent r =
     (case r of
        [] \<Rightarrow> 0
      | c # r1 \<Rightarrow>
          if c = CHR ''e'' \<or> c = CHR ''E'' then
            (case r1 of
               [] \<Rightarrow> 0
             | s # r2 \<Rightarrow>
                 if s = CHR ''-'' then (if takeWhile isDigit r2 = [] then 0 else - parseInt (takeWhile isDigit r2))
                 else if s = CHR ''+'' then (if takeWhile isDigit r2 = [] then 0 else parseInt (takeWhile isDigit r2))
                 else parseInt (takeWhile isDigit r1))
          else 0)"

definition parseFloat_exact :: "string \<Rightarrow> jsnumber" where
  \<comment> \<open>the built-in \<open>parseFloat\<close> before rounding: leading white space is skipped, and the
     value is that of the longest prefix that is a decimal literal (sign, \<open>Infinity\<close> or
     digits with an optional fraction and exponent), \<open>NaN\<close> when there is none. The
     built-in rounds this value to the nearest double, so the two differ on a text within
     rounding distance of a bound (\<open>4.99999999999999999999\<close> is 5 for the built-in). It
     is used in the concrete instances only; \<open>identifyTrends\<close> takes \<open>parseFloat\<close> as a
     parameter.\<close>
  "parseFloat_exact s =
     (let t = dropWhile isWhiteSpace s;
          neg = (case t of [] \<Rightarrow> False | c # _ \<Rightarrow> c = CHR ''-'');
          u = (case t of [] \<Rightarrow> t | c # r \<Rightarrow> if c = CHR ''-'' \<or> c = CHR ''+'' then r else t);
          ip = takeWhile isDigit u;
          r1 = dropWhile isDigit u;
          fp = (case r1 of [] \<Rightarrow> [] | c # r \<Rightarrow> if c = CHR ''.'' then takeWhile isDigit r else []);
          r2 = (case r1 of [] \<Rightarrow> [] | c # r \<Rightarrow> if c = CHR ''.'' then dropWhile isDigit r else r1);
          e = parseExponent r2;
          m = of_int (parseInt (ip @ fp)) / 10 ^ length fp;
          v = (if e < 0 then m / 10 ^ nat (- e) else m * 10 ^ nat e)
      in if startsWith u ''Infinity'' then (if neg then MinusInfinity else PlusInfinity)
         else if ip = [] \<and> fp = [] then NaN
         else Number (if neg then - v else v))"

section \<open>Values of JSON and of dynamically typed results\<close>

datatype json =
  JNull | JBool bool | JNumber rat | JString string | JArray "json list"
  | JObject "(string \<times> json) list"

datatype parse_result = Throws string | Returns json
  \<comment> \<open>the outcome of the built-in \<open>JSON.parse(text)\<close>: a \<open>SyntaxError\<close> with its message,
     or the parsed value\<close>

datatype error = Error string

section \<open>Ranking a counting object\<close>

definition increment :: "jsobj \<Rightarrow> string \<Rightarrow> jsobj" where
  \<comment> \<open>\<open>m[k] = (m[k] || 0) + 1\<close>\<close>
  "increment m k =
     setProp m k
       (plusNumber (case getProp m k of None \<Rightarrow> Num 0
                    | Some v \<Rightarrow> if truthy v then v else Num 0) 1)"

definition minusCounts :: "jsval \<Rightarrow> jsval \<Rightarrow> int" where
  \<comment> \<open>the comparator's \<open>b[1] - a[1]\<close> as \<open>sort\<close> reads it: the difference of two numbers;
     with a string count the difference is \<open>NaN\<close>, which \<open>sort\<close> takes as 0\<close>
  "minusCounts y x = (case (y, x) of (Num b, Num a) \<Rightarrow> b - a | _ \<Rightarrow> 0)"

primrec insertBy :: "('a \<Rightarrow> 'a \<Rightarrow> int) \<Rightarrow> 'a \<Rightarrow> 'a list \<Rightarrow> 'a list" where
  "insertBy cmp x [] = [x]"
| "insertBy cmp x (y # ys) = (if cmp x y \<le> 0 then x # y # ys else y # insertBy cmp x ys)"

definition sortBy :: "('a \<Rightarrow> 'a \<Rightarrow> int) \<Rightarrow> 'a list \<Rightarrow> 'a list" where
  \<comment> \<open>\<open>Array.prototype.sort(cmp)\<close>, which is stable: an element stays before a later one
     unless the comparator puts it after. On numeric counts the comparator is consistent
     and every stable sort gives this order. With a string count the comparison is
     \<open>NaN\<close>, the comparator is not consistent and the engine's order may be another: the
     model is exact on numeric counts only.\<close>
  "sortBy cmp xs = foldr (insertBy cmp) xs []"

definition byCountDesc :: "(string \<times> jsval) \<Rightarrow> (string \<times> jsval) \<Rightarrow> int" where
  \<comment> \<open>\<open>(a, b) => b[1] - a[1]\<close>\<close>
  "byCountDesc a b = minusCounts (snd b) (snd a)"

definition getMostCommon :: "jsobj \<Rightarrow> json" where
  \<comment> \<open>\<open>if (entries.length === 0) return null; return entries.sort(...)[0][0]\<close>\<close>
  "getMostCommon frequencyMap =
     (let entries = Object_entries frequencyMap
      in if length entries = 0 then JNull
         else (case sortBy byCountDesc entries of
                 [] \<Rightarrow> JNull
               | e # _ \<Rightarrow> JString (fst e)))"

section \<open>The recommendation engine (RecommendationEngine)\<close>

text \<open>
  The engine's state is its \<open>userHistory\<close> list. JavaScript does not type the entries:
  \<open>analyzeHistory\<close> reads them as \<open>HistoryEntry\<close> records, \<open>importHistory\<close> stores the
  array \<open>JSON.parse\<close> returned, so the record is polymorphic in the entries. Methods that
  change the state return the new state. \<open>colors\<close> is an array of strings (the colour
  letters); the default \<open>Array.prototype.sort()\<close> orders strings by their code units, which
  is the order of \<open>string\<close> here.
\<close>

record HistoryEntry =
  commander :: "string option"
  strategy :: "string option"
  colors :: "string list option"
  deckCards :: "string list option"
  timestamp :: string

record 'e RecommendationEngine =
  userHistory :: "'e list"

record HistoryAnalysis =
  totalDecks :: nat
  commanders :: jsobj
  strategies :: jsobj
  colorCounts :: jsobj
  mostPlayedCommander :: json
  favoriteStrategy :: json
  favoriteColors :: json

definition countField :: "jsobj \<Rightarrow> string option \<Rightarrow> jsobj" where
  \<comment> \<open>\<open>if (deck.f) { m[deck.f] = (m[deck.f] || 0) + 1; }\<close>\<close>
  "countField m f = (case f of None \<Rightarrow> m | Some k \<Rightarrow> if k = [] then m else increment m k)"

primrec analyzeHistory_loop ::
  "HistoryEntry list \<Rightarrow> jsobj \<times> jsobj \<times> jsobj \<times> HistoryEntry list
     \<Rightarrow> jsobj \<times> jsobj \<times> jsobj \<times> HistoryEntry list" where
  \<comment> \<open>\<open>this.userHistory.forEach(deck => ...)\<close>; the state is the three counting objects
     and the entries as the loop leaves them: \<open>deck.colors.sort()\<close> sorts the entry's own
     array in place\<close>
  "analyzeHistory_loop [] st = st"
| "analyzeHistory_loop (deck # rest) st =
     (case st of (cmds, strats, cols, done) \<Rightarrow>
        analyzeHistory_loop rest
          (countField cmds (commander deck),
           countField strats (strategy deck),
           (case colors deck of None \<Rightarrow> cols
            | Some cs \<Rightarrow> increment cols (concat (sort cs))),
           done @ [case colors deck of None \<Rightarrow> deck
                   | Some cs \<Rightarrow> deck\<lparr>colors := Some (sort cs)\<rparr>]))"

definition analyzeHistory ::
  "HistoryEntry RecommendationEngine \<Rightarrow> HistoryAnalysis \<times> HistoryEntry RecommendationEngine" where
  "analyzeHistory this =
     (case analyzeHistory_loop (userHistory this) ([], [], [], []) of
        (cmds, strats, cols, entries) \<Rightarrow>
          (\<lparr>totalDecks = length (userHistory this),
            commanders = cmds,
            strategies = strats,
            colorCounts = cols,
            mostPlayedCommander = getMostCommon cmds,
            favoriteStrategy = getMostCommon strats,
            favoriteColors = getMostCommon cols\<rparr>,
           this\<lparr>userHistory := entries\<rparr>))"

record Gap =
  gap_type :: string
  description :: string
  suggestion :: string

definition join_comma :: "string list \<Rightarrow> string" where
  \<comment> \<open>\<open>xs.join(', ')\<close>\<close>
  "join_comma xs = (case xs of [] \<Rightarrow> [] | x # rest \<Rightarrow> foldl (\<lambda>acc y. acc @ '', '' @ y) x rest)"

definition colorName :: "string \<Rightarrow> string" where
  \<comment> \<open>\<open>names[color] || color\<close>, called on the letters of \<open>allColors\<close> only\<close>
  "colorName color =
     (case map_of [(''W'', ''White''), (''U'', ''Blue''), (''B'', ''Black''), (''R'', ''Red''),
                   (''G'', ''Green'')] color of
        Some n \<Rightarrow> n | None \<Rightarrow> color)"

definition allColors :: "string list" where
  "allColors = [''W'', ''U'', ''B'', ''R'', ''G'']"

definition commonStrategies :: "string list" where
  "commonStrategies = [''aggro'', ''control'', ''combo'', ''midrange'', ''tribal'',
     ''voltron'', ''aristocrats'', ''tokens'', ''spellslinger'']"

definition colorGaps :: "jsobj \<Rightarrow> Gap list" where
  "colorGaps cols =
     (let playedColors = set (concat (map (\<lambda>colorCombo. map (\<lambda>c. [c]) colorCombo) (Object_keys cols)));
          unplayedColors = filter (\<lambda>c. c \<notin> playedColors) allColors
      in case unplayedColors of
           [] \<Rightarrow> []
         | first # _ \<Rightarrow>
             [\<lparr>gap_type = ''colors'',
               description = ''Haven't explored: '' @ join_comma unplayedColors,
               suggestion = ''Try building with '' @ first @ '' ('' @ colorName first @ '')''\<rparr>])"

definition strategyGaps :: "jsobj \<Rightarrow> Gap list" where
  "strategyGaps strats =
     (let playedStrategies = Object_keys strats;
          unplayedStrategies = filter (\<lambda>s. s \<notin> set playedStrategies) commonStrategies
      in case unplayedStrategies of
           [] \<Rightarrow> []
         | first # _ \<Rightarrow>
             [\<lparr>gap_type = ''strategies'',
               description = ''Unexplored strategies: '' @ join_comma (take 3 unplayedStrategies),
               suggestion = ''Consider trying a '' @ first @ '' deck''\<rparr>])"

definition identifyGaps ::
  "'a \<Rightarrow> HistoryEntry RecommendationEngine \<Rightarrow> Gap list \<times> HistoryEntry RecommendationEngine" where
  \<comment> \<open>\<open>profileAnalysis\<close> may be any value; the body never reads it\<close>
  "identifyGaps profileAnalysis this =
     (case analyzeHistory this of
        (history, this') \<Rightarrow>
          (colorGaps (colorCounts history) @ strategyGaps (strategies history), this'))"

definition clearHistory :: "'e RecommendationEngine \<Rightarrow> 'e RecommendationEngine" where
  "clearHistory this = this\<lparr>userHistory := []\<rparr>"

definition importHistory ::
  "parse_result \<Rightarrow> json RecommendationEngine \<Rightarrow> error + json RecommendationEngine" where
  \<comment> \<open>\<open>try { const data = JSON.parse(json); this.userHistory = Array.isArray(data) ? data : []; }
     catch (error) { throw new Error(`Failed to import history: ${error.message}`); }\<close>;
     the first argument is what \<open>JSON.parse(json)\<close> did\<close>
  "importHistory parsed this =
     (case parsed of
        Throws message \<Rightarrow> Inl (Error (''Failed to import history: '' @ message))
      | Returns data \<Rightarrow>
          Inr (this\<lparr>userHistory := (case data of JArray xs \<Rightarrow> xs | _ \<Rightarrow> [])\<rparr>))"

section \<open>The knowledge base (YouTubeLearner, src/learning/youtubeLearner.js)\<close>

record YouTubeLearner =
  knowledgeBase :: "json list"

definition importKnowledge :: "parse_result \<Rightarrow> YouTubeLearner \<Rightarrow> error + YouTubeLearner" where
  \<comment> \<open>\<open>try { const data = JSON.parse(json); if (!Array.isArray(data)) { throw new
     Error('Invalid knowledge data: expected an array'); } this.knowledgeBase = data; }
     catch (error) { throw new Error(`Failed to import knowledge: ${error.message}`); }\<close>:
     the error thrown inside \<open>try\<close> is caught and wrapped like a \<open>SyntaxError\<close>\<close>
  "importKnowledge parsed this =
     (case parsed of
        Throws message \<Rightarrow> Inl (Error (''Failed to import knowledge: '' @ message))
      | Returns data \<Rightarrow>
          (case data of
             JArray xs \<Rightarrow> Inr (this\<lparr>knowledgeBase := xs\<rparr>)
           | _ \<Rightarrow> Inl (Error (''Failed to import knowledge: ''
                              @ ''Invalid knowledge data: expected an array''))))"

section \<open>User patterns (MoxfieldAPI.analyzeUserPatterns)\<close>

record MoxfieldDeck =
  format :: "string option"
  deckCommanders :: "string option list option"
  colorIdentity :: "string list option"
  deckName :: "string option"

record RankedCommander =
  rc_name :: string
  rc_count :: jsval

record RankedColors =
  rc_colors :: string
  rcc_count :: jsval

record UserPattern =
  formats :: jsobj
  up_commanders :: jsobj
  up_colors :: jsobj
  favoriteFormat :: "string option"
  topCommanders :: "RankedCommander list"
  topColorCombos :: "RankedColors list"

definition orElse :: "string option \<Rightarrow> string \<Rightarrow> string" where
  \<comment> \<open>\<open>s || d\<close> for an optional string\<close>
  "orElse s d = (case s of None \<Rightarrow> d | Some x \<Rightarrow> if x = [] then d else x)"

primrec analyzeUserPatterns_loop ::
  "MoxfieldDeck list \<Rightarrow> jsobj \<times> jsobj \<times> jsobj \<times> string list \<times> MoxfieldDeck list
     \<Rightarrow> jsobj \<times> jsobj \<times> jsobj \<times> string list \<times> MoxfieldDeck list" where
  \<comment> \<open>\<open>decks.forEach(deck => ...)\<close>; the state is \<open>formats\<close>, \<open>commanders\<close>, \<open>colors\<close>,
     \<open>themes\<close> and the decks as the loop leaves them: \<open>deck.colorIdentity.sort()\<close> sorts the
     deck's own array in place. Each commander is given by its \<open>commander.card?.name\<close>.\<close>
  "analyzeUserPatterns_loop [] st = st"
| "analyzeUserPatterns_loop (deck # rest) st =
     (case st of (fmts, cmds, cols, themes, done) \<Rightarrow>
        analyzeUserPatterns_loop rest
          (increment fmts (orElse (format deck) ''unknown''),
           (case deckCommanders deck of None \<Rightarrow> cmds
            | Some cs \<Rightarrow> foldl (\<lambda>m c. increment m (orElse c ''Unknown'')) cmds cs),
           (case colorIdentity deck of None \<Rightarrow> cols
            | Some ci \<Rightarrow> if length ci > 0 then increment cols (concat (sort ci)) else cols),
           (case deckName deck of None \<Rightarrow> themes
            | Some n \<Rightarrow> if n = [] then themes else themes @ [n]),
           done @ [case colorIdentity deck of None \<Rightarrow> deck
                   | Some ci \<Rightarrow> if length ci > 0 then deck\<lparr>colorIdentity := Some (sort ci)\<rparr>
                                else deck]))"

definition byOwnCountDesc :: "jsobj \<Rightarrow> string \<Rightarrow> string \<Rightarrow> int" where
  \<comment> \<open>\<open>(a, b) => formats[b] - formats[a]\<close> on own keys of \<open>formats\<close>\<close>
  "byOwnCountDesc m a b =
     (case (map_of m b, map_of m a) of (Some y, Some x) \<Rightarrow> minusCounts y x | _ \<Rightarrow> 0)"

definition analyzeUserPatterns :: "MoxfieldDeck list \<Rightarrow> UserPattern \<times> MoxfieldDeck list" where
  "analyzeUserPatterns decks =
     (case analyzeUserPatterns_loop decks ([], [], [], [], []) of
        (fmts, cmds, cols, themes, decks') \<Rightarrow>
          (\<lparr>formats = fmts,
            up_commanders = cmds,
            up_colors = cols,
            favoriteFormat = (case sortBy (byOwnCountDesc fmts) (Object_keys fmts) of
                                [] \<Rightarrow> None | k # _ \<Rightarrow> Some k),
            topCommanders = map (\<lambda>p. \<lparr>rc_name = fst p, rc_count = snd p\<rparr>)
                              (take 5 (sortBy byCountDesc (Object_entries cmds))),
            topColorCombos = map (\<lambda>p. \<lparr>rc_colors = fst p, rcc_count = snd p\<rparr>)
                               (take 5 (sortBy byCountDesc (Object_entries cols)))\<rparr>,
           decks'))"

section \<open>Calls with arguments of any kind\<close>

text \<open>
  The definitions above take arguments of the kinds the documentation of the functions
  names. JavaScript checks nothing at a call: an argument may be any value, and a method
  call, an iteration or a destructuring on the wrong kind of value raises a \<open>TypeError\<close>.
  \<open>parseDeckList\<close> and \<open>validateParsedDeck\<close> are modelled here once more, with arguments
  of any kind and with that outcome, every place of the source that can raise being a
  branch. A call either raises, or returns a value of the model above, or returns a value
  that model does not hold (a quantity or an expected size that is no number makes the
  sums \<open>NaN\<close> or strings).
\<close>

datatype dyn =
  DUndefined | DNull | DBool bool | DNum int | DStr string | DArr "dyn list"
  | DObj "(string \<times> dyn) list"

datatype exception = TypeError

datatype 'a completion = Raised exception | Returned 'a | ReturnedOther

definition capture :: "(string \<times> string) option \<Rightarrow> nat \<Rightarrow> string completion" where
  \<comment> \<open>\<open>match[i]\<close> for the groups 1 and 2: reading a property of \<open>null\<close> raises\<close>
  "capture m i =
     (case m of None \<Rightarrow> Raised TypeError
      | Some (g1, g2) \<Rightarrow> Returned (if i = 1 then g1 else g2))"

definition parseLine_js :: "string \<Rightarrow> CardEntry option completion" where
  \<comment> \<open>the body of the parser's loop, with \<open>match[1]\<close> and \<open>match[2]\<close> read as the source
     reads them, inside \<open>if (match)\<close>\<close>
  "parseLine_js line =
     (let trimmed = trim line
      in if trimmed = [] then Returned None
         else if startsWith trimmed ''#'' \<or> startsWith trimmed ''**'' \<or> startsWith trimmed ''###''
           then Returned None
         else if isSectionLabel trimmed then Returned None
         else (let m = matchCardLine trimmed
               in if m \<noteq> None then
                    (case capture m 1 of
                       Returned q \<Rightarrow>
                         (case capture m 2 of
                            Returned n \<Rightarrow> Returned (Some \<lparr>quantity = parseInt q, name = trim n\<rparr>)
                          | Raised e \<Rightarrow> Raised e
                          | ReturnedOther \<Rightarrow> ReturnedOther)
                     | Raised e \<Rightarrow> Raised e
                     | ReturnedOther \<Rightarrow> ReturnedOther)
                  else if trimmed \<noteq> [] \<and> \<not> str_includes trimmed '':'' \<and> length trimmed > 2
                    then Returned (Some \<lparr>quantity = 1, name = trimmed\<rparr>)
                  else Returned None))"

primrec parseLines_js :: "string list \<Rightarrow> CardEntry list \<Rightarrow> CardEntry list completion" where
  "parseLines_js [] acc = Returned acc"
| "parseLines_js (line # lines) acc =
     (case parseLine_js line of
        Returned None \<Rightarrow> parseLines_js lines acc
      | Returned (Some entry) \<Rightarrow> parseLines_js lines (acc @ [entry])
      | Raised e \<Rightarrow> Raised e
      | ReturnedOther \<Rightarrow> ReturnedOther)"

definition parseDeckList_js :: "dyn \<Rightarrow> CardEntry list completion" where
  \<comment> \<open>\<open>deckText.split('\n')\<close> is a method of strings only: on \<open>undefined\<close> and \<open>null\<close>
     reading \<open>split\<close> raises, on any other value \<open>split\<close> is no function and the call
     raises\<close>
  "parseDeckList_js deckText =
     (case deckText of
        DStr s \<Rightarrow> parseLines_js (split_newline s) []
      | _ \<Rightarrow> Raised TypeError)"

definition isTruthy :: "dyn \<Rightarrow> bool" where
  "isTruthy v =
     (case v of DUndefined \<Rightarrow> False | DNull \<Rightarrow> False | DBool b \<Rightarrow> b | DNum n \<Rightarrow> n \<noteq> 0
      | DStr s \<Rightarrow> s \<noteq> [] | DArr _ \<Rightarrow> True | DObj _ \<Rightarrow> True)"

definition orDefault :: "dyn option \<Rightarrow> dyn \<Rightarrow> dyn" where
  \<comment> \<open>a destructured property with its default, taken when the property is absent or
     \<open>undefined\<close>\<close>
  "orDefault p d = (case p of None \<Rightarrow> d | Some v \<Rightarrow> if v = DUndefined then d else v)"

definition destructureOptions :: "dyn \<Rightarrow> (dyn \<times> dyn) completion" where
  \<comment> \<open>\<open>options = {}\<close> with \<open>const { expectedSize = 100, isMonoColor = false } = options\<close>:
     the parameter default replaces \<open>undefined\<close> only; destructuring \<open>null\<close> raises; any
     other value that is no object has neither property\<close>
  "destructureOptions options =
     (case options of
        DNull \<Rightarrow> Raised TypeError
      | DObj props \<Rightarrow>
          Returned (orDefault (map_of props ''expectedSize'') (DNum 100),
                    orDefault (map_of props ''isMonoColor'') (DBool False))
      | _ \<Rightarrow> Returned (DNum 100, DBool False))"

definition iterate :: "dyn \<Rightarrow> dyn list completion" where
  \<comment> \<open>\<open>for (const card of cards)\<close>: arrays and strings are iterable, the other values
     here are not\<close>
  "iterate v =
     (case v of DArr xs \<Rightarrow> Returned xs | DStr s \<Rightarrow> Returned (map (\<lambda>c. DStr [c]) s)
      | _ \<Rightarrow> Raised TypeError)"

definition cardName :: "dyn \<Rightarrow> string completion" where
  \<comment> \<open>\<open>card.name.toLowerCase()\<close>: reading \<open>name\<close> of \<open>undefined\<close> or \<open>null\<close> raises, and
     so does calling \<open>toLowerCase\<close> on a \<open>name\<close> that is no string\<close>
  "cardName entry =
     (case entry of
        DObj props \<Rightarrow>
          (case map_of props ''name'' of Some (DStr s) \<Rightarrow> Returned s | _ \<Rightarrow> Raised TypeError)
      | _ \<Rightarrow> Raised TypeError)"

definition cardQuantity :: "dyn \<Rightarrow> int option" where
  \<comment> \<open>\<open>card.quantity\<close> when it is a number\<close>
  "cardQuantity entry =
     (case entry of
        DObj props \<Rightarrow> (case map_of props ''quantity'' of Some (DNum n) \<Rightarrow> Some n | _ \<Rightarrow> None)
      | _ \<Rightarrow> None)"

primrec readCards :: "dyn list \<Rightarrow> CardEntry option list \<Rightarrow> CardEntry option list completion" where
  \<comment> \<open>the validator's loop as far as it can raise: the first card without a string
     \<open>name\<close> raises; a card is \<open>None\<close> when its quantity is no number\<close>
  "readCards [] acc = Returned acc"
| "readCards (entry # rest) acc =
     (case cardName entry of
        Returned nm \<Rightarrow>
          readCards rest
            (acc @ [case cardQuantity entry of None \<Rightarrow> None
                    | Some q \<Rightarrow> Some \<lparr>quantity = q, name = nm\<rparr>])
      | Raised e \<Rightarrow> Raised e
      | ReturnedOther \<Rightarrow> ReturnedOther)"

definition validateParsedDeck_js :: "dyn \<Rightarrow> dyn \<Rightarrow> ValidationResult completion" where
  "validateParsedDeck_js deck options =
     (case destructureOptions options of
        Raised e \<Rightarrow> Raised e
      | ReturnedOther \<Rightarrow> ReturnedOther
      | Returned (expected, monoFlag) \<Rightarrow>
          (case iterate deck of
             Raised e \<Rightarrow> Raised e
           | ReturnedOther \<Rightarrow> ReturnedOther
           | Returned entries \<Rightarrow>
               (case readCards entries [] of
                  Raised e \<Rightarrow> Raised e
                | ReturnedOther \<Rightarrow> ReturnedOther
                | Returned read \<Rightarrow>
                    (case (deck, expected) of
                       (DArr _, DNum n) \<Rightarrow>
                         if list_all (\<lambda>c. c \<noteq> None) read
                         then Returned (validateParsedDeck (List.map_filter id read)
                                 \<lparr>expectedSize = Some n, isMonoColor = Some (isTruthy monoFlag)\<rparr>)
                         else ReturnedOther
                     | _ \<Rightarrow> ReturnedOther))))"



section \<open>Auxiliary definitions for the proofs\<close>

text \<open>
  The loop of \<open>removeDuplicates\<close> without its accumulator, and the lower-cased names of
  the entries of a deck that are not basic lands.
\<close>

fun dedup :: "string set \<Rightarrow> CardEntry list \<Rightarrow> CardEntry list" where
  "dedup seen [] = []"
| "dedup seen (entry # rest) =
     (if isBasicLand (name entry) then entry # dedup seen rest
      else if toLowerCase (name entry) \<notin> seen
        then entry\<lparr>quantity := 1\<rparr> # dedup (insert (toLowerCase (name entry)) seen) rest
      else dedup seen rest)"

definition nonBasicKeys :: "CardEntry list \<Rightarrow> string set" where
  "nonBasicKeys deck = (\<lambda>c. toLowerCase (name c)) ` {c \<in> set deck. \<not> isBasicLand (name c)}"

section \<open>Properties of the parser\<close>

lemma parseLines_acc: "parseLines ls acc = acc @ List.map_filter parseLine ls"
  by (induction ls arbitrary: acc) (auto simp: List.map_filter_simps split: option.splits)

lemma parseDeckList_map_filter: "parseDeckList t = List.map_filter parseLine (split_newline t)"
  by (simp add: parseDeckList_def parseLines_acc)

lemma digitValue_nonneg: "isDigit c \<Longrightarrow> 0 \<le> digitValue c"
  by (auto simp: isDigit_def digitValue_def)

lemma parseInt_acc_nonneg:
  "list_all isDigit ds \<Longrightarrow> 0 \<le> n \<Longrightarrow> 0 \<le> foldl (\<lambda>n c. 10 * n + digitValue c) n ds"
  by (induction ds arbitrary: n) (auto simp: digitValue_nonneg)

lemma parseInt_nonneg: "list_all isDigit ds \<Longrightarrow> 0 \<le> parseInt ds"
  unfolding parseInt_def by (rule parseInt_acc_nonneg) simp_all

lemma trim_nonempty: "trim s \<noteq> [] \<longleftrightarrow> list_ex (\<lambda>c. \<not> isWhiteSpace c) s"
proof -
  have "trim s = [] \<longleftrightarrow> (\<forall>x \<in> set (dropWhile isWhiteSpace s). isWhiteSpace x)"
    by (simp add: trim_def)
  also have "\<dots> \<longleftrightarrow> dropWhile isWhiteSpace s = []"
  proof
    assume all: "\<forall>x \<in> set (dropWhile isWhiteSpace s). isWhiteSpace x"
    show "dropWhile isWhiteSpace s = []"
    proof (rule ccontr)
      assume ne: "dropWhile isWhiteSpace s \<noteq> []"
      then have "\<not> isWhiteSpace (hd (dropWhile isWhiteSpace s))"
        by (rule hd_dropWhile)
      moreover from ne have "hd (dropWhile isWhiteSpace s) \<in> set (dropWhile isWhiteSpace s)"
        by simp
      ultimately show False
        using all by blast
    qed
  qed (auto dest: set_dropWhileD)
  also have "\<dots> \<longleftrightarrow> (\<forall>x \<in> set s. isWhiteSpace x)"
    by simp
  finally show ?thesis
    by (auto simp: list_ex_iff)
qed

lemma matchCardLine_Some:
  assumes "matchCardLine s = Some (q, n)"
  shows "list_all isDigit q \<and> q \<noteq> [] \<and> trim n \<noteq> []"
proof -
  define r2 where "r2 = (case dropWhile isDigit s of [] \<Rightarrow> dropWhile isDigit s
                | c # cs \<Rightarrow> if c = CHR ''x'' \<or> c = CHR ''X'' then cs else dropWhile isDigit s)"
  from assms have q: "q = takeWhile isDigit s" and n: "n = dropWhile isWhiteSpace r2"
    and ne: "q \<noteq> []" "n \<noteq> []"
    by (auto simp: matchCardLine_def Let_def r2_def split: if_splits)
  have "list_all isDigit q"
    unfolding q list_all_iff by (auto dest: set_takeWhileD)
  moreover from ne n have "\<not> isWhiteSpace (hd n)"
    by (metis hd_dropWhile)
  with ne have "list_ex (\<lambda>c. \<not> isWhiteSpace c) n"
    by (cases n) (auto simp: list_ex_iff)
  ultimately show ?thesis
    using ne by (simp add: trim_nonempty)
qed

lemma parseLine_Some:
  assumes "parseLine line = Some e"
  shows "0 \<le> quantity e \<and> name e \<noteq> []"
proof (cases "matchCardLine (trim line)")
  case None
  with assms show ?thesis
    by (auto simp: parseLine_def Let_def split: if_splits)
next
  case (Some qn)
  obtain q n where qn: "qn = (q, n)" by (cases qn)
  from Some qn assms have e: "e = \<lparr>quantity = parseInt q, name = trim n\<rparr>"
    by (auto simp: parseLine_def Let_def split: if_splits)
  from Some qn matchCardLine_Some have "list_all isDigit q \<and> q \<noteq> [] \<and> trim n \<noteq> []"
    by blast
  with e show ?thesis
    by (simp add: parseInt_nonneg)
qed

lemma digitValue_pos: "isDigit c \<Longrightarrow> c \<noteq> CHR ''0'' \<Longrightarrow> 1 \<le> digitValue c"
  by (auto simp: isDigit_def digitValue_def)

lemma digitValue_zero: "digitValue (CHR ''0'') = 0"
  by (simp add: digitValue_def)

lemma parseInt_acc_mono:
  "list_all isDigit ds \<Longrightarrow> 1 \<le> n \<Longrightarrow> 1 \<le> foldl (\<lambda>n c. 10 * n + digitValue c) n ds"
proof (induction ds arbitrary: n)
  case Nil
  then show ?case by simp
next
  case (Cons c cs)
  then have "0 \<le> digitValue c" by (simp add: digitValue_nonneg)
  with Cons.prems have "1 \<le> 10 * n + digitValue c" by simp
  with Cons show ?case by simp
qed

lemma parseInt_acc_pos:
  "list_all isDigit ds \<Longrightarrow> 0 \<le> n \<Longrightarrow> list_ex (\<lambda>c. c \<noteq> CHR ''0'') ds \<Longrightarrow>
   1 \<le> foldl (\<lambda>n c. 10 * n + digitValue c) n ds"
proof (induction ds arbitrary: n)
  case Nil
  then show ?case by simp
next
  case (Cons c cs)
  show ?case
  proof (cases "c = CHR ''0''")
    case True
    with Cons.prems have "list_ex (\<lambda>c. c \<noteq> CHR ''0'') cs" "0 \<le> 10 * n + digitValue c"
      by (simp_all add: digitValue_zero)
    with Cons show ?thesis by simp
  next
    case False
    with Cons.prems have "1 \<le> digitValue c" by (simp add: digitValue_pos)
    with Cons.prems have "1 \<le> 10 * n + digitValue c" by simp
    with Cons.prems show ?thesis by (simp add: parseInt_acc_mono)
  qed
qed

lemma parseInt_acc_zeros:
  "list_all (\<lambda>c. c = CHR ''0'') ds \<Longrightarrow> foldl (\<lambda>n c. 10 * n + digitValue c) 0 ds = 0"
  by (induction ds) (auto simp: digitValue_zero)

lemma parseInt_cases:
  assumes "list_all isDigit ds"
  shows "(list_all (\<lambda>c. c = CHR ''0'') ds \<and> parseInt ds = 0)
         \<or> (\<not> list_all (\<lambda>c. c = CHR ''0'') ds \<and> 1 \<le> parseInt ds)"
proof (cases "list_all (\<lambda>c. c = CHR ''0'') ds")
  case True
  then show ?thesis by (simp add: parseInt_def parseInt_acc_zeros)
next
  case False
  then have "list_ex (\<lambda>c. c \<noteq> CHR ''0'') ds"
    by (auto simp: list_all_iff list_ex_iff)
  with assms have "1 \<le> parseInt ds"
    unfolding parseInt_def by (intro parseInt_acc_pos) simp_all
  with False show ?thesis by simp
qed

lemma parseLine_quantity:
  assumes "parseLine line = Some e"
  shows "1 \<le> quantity e
         \<or> (quantity e = 0 \<and> takeWhile isDigit (trim line) \<noteq> []
            \<and> list_all (\<lambda>c. c = CHR ''0'') (takeWhile isDigit (trim line)))"
proof (cases "matchCardLine (trim line)")
  case None
  with assms show ?thesis
    by (auto simp: parseLine_def Let_def split: if_splits)
next
  case (Some qn)
  obtain q n where qn: "qn = (q, n)" by (cases qn)
  from Some qn assms have e: "quantity e = parseInt q"
    by (auto simp: parseLine_def Let_def split: if_splits)
  from Some qn have q: "q = takeWhile isDigit (trim line)"
    by (auto simp: matchCardLine_def Let_def split: if_splits)
  from Some qn matchCardLine_Some have d: "list_all isDigit q" "q \<noteq> []"
    by blast+
  from parseInt_cases [OF d(1)] e q d(2) show ?thesis
    by auto
qed

text \<open>
  C4. The claim asks for \<open>quantity \<ge> 1\<close> and a non-empty name on every entry the parser
  produces. The name part holds; the quantity is read from the leading integer of the
  line, with no check that it is positive, so the line \<open>0 Sol Ring\<close> gives an entry of
  quantity 0.
\<close>

theorem parseDeckList_quantity_ge_1_counterexample:
  "parseDeckList ''0 Sol Ring'' = [\<lparr>quantity = 0, name = ''Sol Ring''\<rparr>]
   \<and> \<not> 1 \<le> quantity \<lparr>quantity = 0, name = ''Sol Ring''\<rparr>"
  by code_simp

text \<open>
  C4, as amended: every entry produced by \<open>parseDeckList\<close>, for every input text, has a
  non-empty name, and either its quantity is at least 1, or its quantity is 0 and it is
  parsed from a line whose leading integer is written with zeros only (such as
  \<open>0 Sol Ring\<close> or \<open>00x Sol Ring\<close>).
\<close>

theorem parseDeckList_entries:
  "\<forall>e \<in> set (parseDeckList deckText).
     name e \<noteq> []
     \<and> (1 \<le> quantity e
        \<or> (quantity e = 0
           \<and> (\<exists>line \<in> set (split_newline deckText).
                 parseLine line = Some e
                 \<and> takeWhile isDigit (trim line) \<noteq> []
                 \<and> list_all (\<lambda>c. c = CHR ''0'') (takeWhile isDigit (trim line)))))"
proof
  fix e assume "e \<in> set (parseDeckList deckText)"
  then obtain line where l: "line \<in> set (split_newline deckText)" and p: "parseLine line = Some e"
    by (auto simp: parseDeckList_map_filter List.map_filter_def)
  from parseLine_Some [OF p] parseLine_quantity [OF p] l p
  show "name e \<noteq> []
     \<and> (1 \<le> quantity e
        \<or> (quantity e = 0
           \<and> (\<exists>line \<in> set (split_newline deckText).
                 parseLine line = Some e
                 \<and> takeWhile isDigit (trim line) \<noteq> []
                 \<and> list_all (\<lambda>c. c = CHR ''0'') (takeWhile isDigit (trim line)))))"
    by blast
qed

theorem parseDeckList_entries_witness:
  "parseDeckList ''2x Sol Ring'' = [\<lparr>quantity = 2, name = ''Sol Ring''\<rparr>]
   \<and> name \<lparr>quantity = 2, name = ''Sol Ring''\<rparr> \<noteq> []
   \<and> 1 \<le> quantity \<lparr>quantity = 2, name = ''Sol Ring''\<rparr>
   \<and> parseDeckList ''00 Sol Ring'' = [\<lparr>quantity = 0, name = ''Sol Ring''\<rparr>]
   \<and> (\<exists>line \<in> set (split_newline ''00 Sol Ring'').
         parseLine line = Some \<lparr>quantity = 0, name = ''Sol Ring''\<rparr>
         \<and> takeWhile isDigit (trim line) \<noteq> []
         \<and> list_all (\<lambda>c. c = CHR ''0'') (takeWhile isDigit (trim line)))"
proof -
  have p: "parseDeckList ''2x Sol Ring'' = [\<lparr>quantity = 2, name = ''Sol Ring''\<rparr>]"
    by code_simp
  have z: "parseDeckList ''00 Sol Ring'' = [\<lparr>quantity = 0, name = ''Sol Ring''\<rparr>]"
    by code_simp
  from p have "\<lparr>quantity = 2, name = ''Sol Ring''\<rparr> \<in> set (parseDeckList ''2x Sol Ring'')"
    by simp
  with parseDeckList_entries [of "''2x Sol Ring''"]
  have a: "name \<lparr>quantity = 2, name = ''Sol Ring''\<rparr> \<noteq> []
           \<and> 1 \<le> quantity \<lparr>quantity = 2, name = ''Sol Ring''\<rparr>"
    by simp
  from z have "\<lparr>quantity = 0, name = ''Sol Ring''\<rparr> \<in> set (parseDeckList ''00 Sol Ring'')"
    by simp
  with parseDeckList_entries [of "''00 Sol Ring''"]
  have b: "\<exists>line \<in> set (split_newline ''00 Sol Ring'').
         parseLine line = Some \<lparr>quantity = 0, name = ''Sol Ring''\<rparr>
         \<and> takeWhile isDigit (trim line) \<noteq> []
         \<and> list_all (\<lambda>c. c = CHR ''0'') (takeWhile isDigit (trim line))"
    by fastforce
  from p z a b show ?thesis
    by blast
qed

subsection \<open>Formatting and parsing again\<close>

lemma join_newline_foldl:
  "foldl (\<lambda>acc x. acc @ [CHR 0x0A] @ x) (a @ b) ls = a @ foldl (\<lambda>acc x. acc @ [CHR 0x0A] @ x) b ls"
  by (induction ls arbitrary: b) auto

lemma join_newline_Cons2:
  "join_newline (l # l' # ls) = l @ [CHR 0x0A] @ join_newline (l' # ls)"
  using join_newline_foldl [of l "CHR 0x0A # l'" ls] join_newline_foldl [of "[CHR 0x0A]" l' ls]
  by (simp add: join_newline_def)

lemma split_newline_no_LF: "CHR 0x0A \<notin> set l \<Longrightarrow> split_newline l = [l]"
  by (induction l) auto

lemma split_newline_append:
  "CHR 0x0A \<notin> set l \<Longrightarrow> split_newline (l @ [CHR 0x0A] @ s) = l # split_newline s"
  by (induction l) auto

lemma split_join_newline:
  "ls \<noteq> [] \<Longrightarrow> \<forall>l \<in> set ls. CHR 0x0A \<notin> set l \<Longrightarrow> split_newline (join_newline ls) = ls"
proof (induction ls rule: induct_list012)
  case 1
  then show ?case by simp
next
  case (2 l)
  then show ?case by (simp add: join_newline_def split_newline_no_LF)
next
  case (3 l l' ls)
  then have ih: "split_newline (join_newline (l' # ls)) = l' # ls" and "CHR 0x0A \<notin> set l"
    by simp_all
  from this(2) have "split_newline (l @ [CHR 0x0A] @ join_newline (l' # ls))
                     = l # split_newline (join_newline (l' # ls))"
    by (rule split_newline_append)
  then show ?case
    by (simp only: join_newline_Cons2 ih)
qed

lemma trim_id:
  assumes "s \<noteq> []" and "\<not> isWhiteSpace (hd s)" and "\<not> isWhiteSpace (last s)"
  shows "trim s = s"
proof -
  from assms have "dropWhile isWhiteSpace s = s"
    by (cases s) auto
  moreover from assms have "dropWhile isWhiteSpace (rev s) = rev s"
    by (cases "rev s") (auto simp: last_rev [symmetric] hd_rev)
  ultimately show ?thesis
    by (simp add: trim_def)
qed

lemma trim_ends:
  assumes "trim s \<noteq> []"
  shows "\<not> isWhiteSpace (hd (trim s)) \<and> \<not> isWhiteSpace (last (trim s))"
proof -
  let ?t = "dropWhile isWhiteSpace s"
  let ?u = "dropWhile isWhiteSpace (rev ?t)"
  from assms have u: "?u \<noteq> []"
    by (simp add: trim_def)
  then have t: "?t \<noteq> []"
    by (metis dropWhile.simps(1) rev.simps(1))
  have "last (trim s) = hd ?u"
    using u by (simp add: trim_def last_rev)
  moreover have "\<not> isWhiteSpace (hd ?u)"
    using u by (rule hd_dropWhile)
  moreover have "hd (trim s) = last ?u"
    using u by (simp add: trim_def hd_rev)
  moreover have "last ?u = last (rev ?t)"
    using u by (metis last_appendR takeWhile_dropWhile_id)
  moreover have "last (rev ?t) = hd ?t"
    using t by (simp add: last_rev)
  moreover have "\<not> isWhiteSpace (hd ?t)"
    using t by (rule hd_dropWhile)
  ultimately show ?thesis
    by simp
qed

lemma set_trim: "set (trim s) \<subseteq> set s"
  by (auto simp: trim_def dest!: set_dropWhileD)

lemma parseLine_formatted:
  assumes "n \<noteq> []" and "\<not> isWhiteSpace (hd n)" and "\<not> isWhiteSpace (last n)"
    and "\<not> list_ex isLineTerminator n"
  shows "parseLine (''1x '' @ n) = Some \<lparr>quantity = 1, name = n\<rparr>"
proof -
  from assms have tn: "trim n = n"
    by (simp add: trim_id)
  from assms have "trim (''1x '' @ n) = ''1x '' @ n"
    by (intro trim_id) (auto simp: isWhiteSpace_def)
  moreover have "\<not> isSectionLabel (''1x '' @ n)"
    by (simp add: isSectionLabel_def startsWithDigit_def isDigit_def list_ex_iff)
  moreover have "matchCardLine (''1x '' @ n) = Some (''1'', n)"
  proof -
    from assms have "takeWhile isWhiteSpace n = []" and "dropWhile isWhiteSpace n = n"
      by (cases n; simp)+
    then have ws: "takeWhile isWhiteSpace (CHR '' '' # n) = '' ''"
      and r3: "dropWhile isWhiteSpace (CHR '' '' # n) = n"
      by (simp_all add: isWhiteSpace_def)
    have d: "takeWhile isDigit (''1x '' @ n) = ''1''"
      and r1: "dropWhile isDigit (''1x '' @ n) = ''x '' @ n"
      by (simp_all add: isDigit_def)
    show ?thesis
      unfolding matchCardLine_def Let_def d r1
      using assms(1,4) by (simp add: ws r3 del: takeWhile.simps dropWhile.simps)
  qed
  ultimately show ?thesis
    using tn by (simp add: parseLine_def parseInt_def digitValue_def)
qed

lemma parseDeckList_formatDeckList:
  assumes "\<forall>e \<in> set deck. name e \<noteq> [] \<and> \<not> isWhiteSpace (hd (name e))
             \<and> \<not> isWhiteSpace (last (name e)) \<and> \<not> list_ex isLineTerminator (name e)"
  shows "parseDeckList (formatDeckList deck) = map (\<lambda>e. \<lparr>quantity = 1, name = name e\<rparr>) deck"
proof (cases "deck = []")
  case True
  then show ?thesis
    by (simp add: formatDeckList_def join_newline_def parseDeckList_def parseLine_def trim_def)
next
  case False
  let ?ls = "map (\<lambda>c. ''1x '' @ name c) deck"
  have "\<forall>l \<in> set ?ls. CHR 0x0A \<notin> set l"
    using assms by (auto simp: list_ex_iff isLineTerminator_def)
  with False have "split_newline (join_newline ?ls) = ?ls"
    by (intro split_join_newline) auto
  moreover have "List.map_filter parseLine ?ls = map (\<lambda>e. \<lparr>quantity = 1, name = name e\<rparr>) deck"
    using assms
  proof (induction deck)
    case Nil
    then show ?case by (simp add: List.map_filter_simps)
  next
    case (Cons e es)
    then have "parseLine (''1x '' @ name e) = Some \<lparr>quantity = 1, name = name e\<rparr>"
      by (intro parseLine_formatted) auto
    with Cons show ?case
      by (simp add: List.map_filter_simps)
  qed
  ultimately show ?thesis
    by (simp add: parseDeckList_map_filter formatDeckList_def)
qed

lemma set_split_newline: "l \<in> set (split_newline t) \<Longrightarrow> set l \<subseteq> set t \<and> CHR 0x0A \<notin> set l"
proof (induction t arbitrary: l)
  case Nil
  then show ?case by simp
next
  case (Cons c cs)
  show ?case
  proof (cases "c = CHR 0x0A")
    case True
    with Cons show ?thesis by auto
  next
    case False
    have "split_newline cs \<noteq> []"
      by (cases cs) (auto split: list.splits)
    then obtain l' ls where s: "split_newline cs = l' # ls"
      by (cases "split_newline cs") auto
    with Cons.prems False have "l = c # l' \<or> l \<in> set ls"
      by auto
    with Cons.IH [of l'] Cons.IH [of l] s False show ?thesis
      by auto
  qed
qed

lemma matchCardLine_subset:
  assumes "matchCardLine s = Some (q, n)"
  shows "set n \<subseteq> set s"
proof -
  define r2 where "r2 = (case dropWhile isDigit s of [] \<Rightarrow> dropWhile isDigit s
                | c # cs \<Rightarrow> if c = CHR ''x'' \<or> c = CHR ''X'' then cs else dropWhile isDigit s)"
  from assms have n: "n = dropWhile isWhiteSpace r2"
    by (auto simp: matchCardLine_def Let_def r2_def split: if_splits)
  have "set r2 \<subseteq> set (dropWhile isDigit s)"
    by (auto simp: r2_def split: list.splits)
  moreover have "set (dropWhile isDigit s) \<subseteq> set s"
    by (auto dest: set_dropWhileD)
  moreover have "set n \<subseteq> set r2"
    unfolding n by (auto dest: set_dropWhileD)
  ultimately show ?thesis
    by blast
qed

lemma parseLine_name:
  assumes "parseLine line = Some e"
  shows "name e \<noteq> [] \<and> \<not> isWhiteSpace (hd (name e)) \<and> \<not> isWhiteSpace (last (name e))
         \<and> set (name e) \<subseteq> set line"
proof (cases "matchCardLine (trim line)")
  case None
  with assms have "name e = trim line" "trim line \<noteq> []"
    by (auto simp: parseLine_def Let_def split: if_splits)
  with trim_ends [of line] set_trim [of line] show ?thesis
    by simp
next
  case (Some qn)
  obtain q n where qn: "qn = (q, n)" by (cases qn)
  from Some qn assms have e: "name e = trim n"
    by (auto simp: parseLine_def Let_def split: if_splits)
  from Some qn have ne: "trim n \<noteq> []"
    using matchCardLine_Some by blast
  from Some qn have "set n \<subseteq> set (trim line)"
    using matchCardLine_subset by blast
  with set_trim [of n] set_trim [of line] have "set (trim n) \<subseteq> set line"
    by blast
  with e ne trim_ends [of n] show ?thesis
    by simp
qed

text \<open>
  What does hold of the round trip: for a text without a carriage return, parsing the
  formatted deck gives the names of the first parse, in order, each with quantity 1.
\<close>

lemma reparse_names:
  assumes "CHR 0x0D \<notin> set deckText"
  shows "parseDeckList (formatDeckList (parseDeckList deckText))
         = map (\<lambda>e. \<lparr>quantity = 1, name = name e\<rparr>) (parseDeckList deckText)"
proof (rule parseDeckList_formatDeckList, rule ballI)
  fix e assume "e \<in> set (parseDeckList deckText)"
  then obtain line where l: "line \<in> set (split_newline deckText)" and p: "parseLine line = Some e"
    by (auto simp: parseDeckList_map_filter List.map_filter_def)
  from set_split_newline [OF l] assms have "CHR 0x0A \<notin> set line" "CHR 0x0D \<notin> set line"
    by auto
  with parseLine_name [OF p] have "\<not> list_ex isLineTerminator (name e)"
    by (auto simp: list_ex_iff isLineTerminator_def)
  with parseLine_name [OF p]
  show "name e \<noteq> [] \<and> \<not> isWhiteSpace (hd (name e))
             \<and> \<not> isWhiteSpace (last (name e)) \<and> \<not> list_ex isLineTerminator (name e)"
    by simp
qed

text \<open>
  With a carriage return inside a bare card name the formatted line no longer matches the
  card pattern (\<open>.\<close> does not match a carriage return) and is read as a bare name itself.
\<close>

lemma reparse_name_with_carriage_return:
  "parseDeckList (''ab'' @ [CHR 0x0D] @ ''cd'')
     = [\<lparr>quantity = 1, name = ''ab'' @ [CHR 0x0D] @ ''cd''\<rparr>]
   \<and> parseDeckList (formatDeckList (parseDeckList (''ab'' @ [CHR 0x0D] @ ''cd'')))
     = [\<lparr>quantity = 1, name = ''1x ab'' @ [CHR 0x0D] @ ''cd''\<rparr>]"
  by code_simp

text \<open>
  C2. Re-parsing \<open>formatDeckList (parseDeckList text)\<close> does not reproduce the quantities
  of the first parse: \<open>formatDeckList\<close> writes the literal \<open>1x\<close> before every name and never
  reads \<open>quantity\<close>. For the text \<open>2 Sol Ring\<close> the first parse holds quantity 2, the
  serialized line is \<open>1x Sol Ring\<close>, and the second parse holds quantity 1.
\<close>

theorem formatDeckList_drops_quantity:
  "parseDeckList ''2 Sol Ring'' = [\<lparr>quantity = 2, name = ''Sol Ring''\<rparr>]
   \<and> formatDeckList (parseDeckList ''2 Sol Ring'') = ''1x Sol Ring''
   \<and> parseDeckList (formatDeckList (parseDeckList ''2 Sol Ring''))
       = [\<lparr>quantity = 1, name = ''Sol Ring''\<rparr>]"
  by code_simp

section \<open>Properties of counting objects\<close>

lemma Object_entries_set: "set (Object_entries m) = set m"
  by (auto simp: Object_entries_def)

lemma Object_entries_Nil_iff: "Object_entries m = [] \<longleftrightarrow> m = []"
  using Object_entries_set [of m] by (metis set_empty)

lemma not_inherited_not_proto: "map_of ObjectPrototype k = None \<Longrightarrow> k \<noteq> ''__proto__''"
  by (auto simp: ObjectPrototype_def)

lemma map_of_putOwn: "map_of (putOwn k v m) k' = (if k' = k then Some v else map_of m k')"
  by (induction m) auto

lemma map_of_setProp_other: "k' \<noteq> k \<Longrightarrow> map_of (setProp m k v) k' = map_of m k'"
  by (simp add: setProp_def map_of_putOwn)

lemma map_of_setProp_same: "k \<noteq> ''__proto__'' \<Longrightarrow> map_of (setProp m k v) k = Some v"
  by (simp add: setProp_def map_of_putOwn)

section \<open>Properties of the validator\<close>

lemma countCards_total:
  "fst (snd (countCards deck (counts, tot, lands))) = tot + sum_list (map quantity deck)"
  by (induction deck arbitrary: counts tot lands) (auto simp: algebra_simps)



lemma validateParsedDeck_cards: "cards (validateParsedDeck deck options) = deck"
  by (simp add: validateParsedDeck_def Let_def split: prod.splits)

lemma countCard_other:
  "toLowerCase (name e) \<noteq> k \<Longrightarrow> map_of (countCard m e) k = map_of m k"
  by (auto simp: countCard_def Let_def map_of_setProp_other split: option.splits)

lemma countCard_same:
  assumes "map_of ObjectPrototype k = None" and "toLowerCase (name e) = k"
    and "\<not> isBasicLand (name e)"
    and "(map_of m k = None \<and> n = 0) \<or> map_of m k = Some (Num n)"
  shows "map_of (countCard m e) k = Some (Num (n + quantity e))"
  using assms not_inherited_not_proto [OF assms(1)]
  by (auto simp: countCard_def Let_def getProp_def truthy_def plusNumber_def
        map_of_setProp_same)

lemma countCards_count:
  assumes "map_of ObjectPrototype k = None" and "k \<notin> set BASIC_LANDS"
    and "(map_of m k = None \<and> n = 0) \<or> map_of m k = Some (Num n)"
  shows "map_of (fst (countCards deck (m, t, l))) k =
           (if filter (\<lambda>e. toLowerCase (name e) = k) deck = [] then map_of m k
            else Some (Num (n + sum_list (map quantity
                                   (filter (\<lambda>e. toLowerCase (name e) = k) deck)))))"
  using assms(3)
proof (induction deck arbitrary: m t l n)
  case Nil
  then show ?case by simp
next
  case (Cons e es)
  show ?case
  proof (cases "toLowerCase (name e) = k")
    case True
    with assms(2) have nb: "\<not> isBasicLand (name e)"
      by (simp add: isBasicLand_def)
    from countCard_same [OF assms(1) True nb Cons.prems]
    have c: "map_of (countCard m e) k = Some (Num (n + quantity e))" .
    then have "(map_of (countCard m e) k = None \<and> n + quantity e = 0)
               \<or> map_of (countCard m e) k = Some (Num (n + quantity e))"
      by simp
    from Cons.IH [OF this] c True show ?thesis
      by (simp add: algebra_simps)
  next
    case False
    then have "map_of (countCard m e) k = map_of m k"
      by (rule countCard_other)
    with Cons.prems have "(map_of (countCard m e) k = None \<and> n = 0)
               \<or> map_of (countCard m e) k = Some (Num n)"
      by simp
    from Cons.IH [OF this] False \<open>map_of (countCard m e) k = map_of m k\<close> show ?thesis
      by simp
  qed
qed

lemma findDuplicates_result:
  "findDuplicates ps (dups, errs) =
     (dups @ map (\<lambda>p. \<lparr>dup_name = fst p, dup_count = snd p\<rparr>) (filter (\<lambda>p. greaterThanOne (snd p)) ps),
      errs @ map (\<lambda>p. duplicateError (fst p) (snd p)) (filter (\<lambda>p. greaterThanOne (snd p)) ps))"
  by (induction ps arbitrary: dups errs) auto

lemma validateParsedDeck_errors:
  "errors (validateParsedDeck deck options) =
     map (\<lambda>p. duplicateError (fst p) (snd p))
       (filter (\<lambda>p. greaterThanOne (snd p))
          (Object_entries (fst (countCards deck ([], 0, 0)))))
     @ sizeErrors (sum_list (map quantity deck))
         (case expectedSize options of None \<Rightarrow> 100 | Some n \<Rightarrow> n)"
proof -
  obtain counts tot lands where c: "countCards deck ([], 0, 0) = (counts, tot, lands)"
    by (cases "countCards deck ([], 0, 0)") auto
  with countCards_total [of deck "[]" 0 0] have "tot = sum_list (map quantity deck)"
    by simp
  with c show ?thesis
    by (simp add: validateParsedDeck_def Let_def findDuplicates_result split: prod.splits)
qed

text \<open>
  What does hold of duplicate detection: a name that is no basic land and, lower-cased,
  no member of \<open>Object.prototype\<close>, whose quantities (summed over the entries with the
  same lower-cased name) exceed 1, gets an error that names it and its count.
\<close>

lemma validateParsedDeck_duplicate_error:
  assumes "map_of ObjectPrototype (toLowerCase n) = None" and "\<not> isBasicLand n"
    and "1 < sum_list (map quantity (filter (\<lambda>e. toLowerCase (name e) = toLowerCase n) deck))"
  shows "duplicateError (toLowerCase n)
           (Num (sum_list (map quantity (filter (\<lambda>e. toLowerCase (name e) = toLowerCase n) deck))))
         \<in> set (errors (validateParsedDeck deck options))"
proof -
  let ?k = "toLowerCase n"
  let ?s = "sum_list (map quantity (filter (\<lambda>e. toLowerCase (name e) = ?k) deck))"
  from assms(3) have ne: "filter (\<lambda>e. toLowerCase (name e) = ?k) deck \<noteq> []"
    by auto
  from assms(2) have "?k \<notin> set BASIC_LANDS"
    by (simp add: isBasicLand_def)
  from countCards_count [OF assms(1) this, of "[]" 0 deck 0 0] ne
  have "map_of (fst (countCards deck ([], 0, 0))) ?k = Some (Num ?s)"
    by simp
  then have "(?k, Num ?s) \<in> set (Object_entries (fst (countCards deck ([], 0, 0))))"
    by (simp add: Object_entries_set map_of_SomeD)
  with assms(3) show ?thesis
    unfolding validateParsedDeck_errors
    by (force simp: greaterThanOne_def)
qed

text \<open>The duplicate of the specification's example, in a deck of five cards.\<close>

lemma validateParsedDeck_sol_ring:
  "errors (validateParsedDeck
       [\<lparr>quantity = 2, name = ''Sol Ring''\<rparr>, \<lparr>quantity = 1, name = ''Arcane Signet''\<rparr>,
        \<lparr>quantity = 1, name = ''Command Tower''\<rparr>, \<lparr>quantity = 1, name = ''Forest''\<rparr>]
       \<lparr>expectedSize = Some 5, isMonoColor = None\<rparr>)
     = [''Duplicate card: '' @ [CHR 0x22] @ ''sol ring'' @ [CHR 0x22]
        @ '' appears 2 times (singleton format allows only 1)'']
   \<and> \<not> isValid (validateParsedDeck
       [\<lparr>quantity = 2, name = ''Sol Ring''\<rparr>, \<lparr>quantity = 1, name = ''Arcane Signet''\<rparr>,
        \<lparr>quantity = 1, name = ''Command Tower''\<rparr>, \<lparr>quantity = 1, name = ''Forest''\<rparr>]
       \<lparr>expectedSize = Some 5, isMonoColor = None\<rparr>)"
  by code_simp

text \<open>
  C1. A deck of two copies of a card named \<open>Constructor\<close> (not a basic land), as parsed
  from the line \<open>2 Constructor\<close>, validated against an expected size of 2: the lower-cased
  name is a member that the counting object inherits from \<open>Object.prototype\<close>, so the
  first branch appends the quantity to the text of the inherited function, the stored
  count is a string that converts to \<open>NaN\<close>, no duplicate error is generated, and the deck
  is reported valid.
\<close>

theorem validateParsedDeck_inherited_name:
  "parseDeckList ''2 Constructor'' = [\<lparr>quantity = 2, name = ''Constructor''\<rparr>]
   \<and> \<not> isBasicLand ''Constructor''
   \<and> errors (validateParsedDeck [\<lparr>quantity = 2, name = ''Constructor''\<rparr>]
            \<lparr>expectedSize = Some 2, isMonoColor = None\<rparr>) = []
   \<and> duplicates (validateParsedDeck [\<lparr>quantity = 2, name = ''Constructor''\<rparr>]
            \<lparr>expectedSize = Some 2, isMonoColor = None\<rparr>) = []
   \<and> isValid (validateParsedDeck [\<lparr>quantity = 2, name = ''Constructor''\<rparr>]
            \<lparr>expectedSize = Some 2, isMonoColor = None\<rparr>)
   \<and> totalCards (validateParsedDeck [\<lparr>quantity = 2, name = ''Constructor''\<rparr>]
            \<lparr>expectedSize = Some 2, isMonoColor = None\<rparr>) = 2"
  by code_simp

section \<open>Calls that raise and calls that return\<close>

lemma parseLine_js_parseLine: "parseLine_js line = Returned (parseLine line)"
proof (cases "matchCardLine (trim line)")
  case None
  then show ?thesis
    by (simp add: parseLine_js_def parseLine_def Let_def)
next
  case (Some qn)
  obtain q n where "qn = (q, n)" by (cases qn)
  with Some show ?thesis
    by (simp add: parseLine_js_def parseLine_def Let_def capture_def)
qed

lemma parseLines_js_parseLines: "parseLines_js ls acc = Returned (parseLines ls acc)"
  by (induction ls arbitrary: acc) (auto simp: parseLine_js_parseLine split: option.splits)


lemma parseDeckList_js_raises:
  "parseDeckList_js v = Raised TypeError \<longleftrightarrow> (\<forall>s. v \<noteq> DStr s)"
  by (cases v) (simp_all add: parseDeckList_js_def parseLines_js_parseLines)











text \<open>Calls that do raise: \<open>null\<close> for the options, a card with no name, no deck, no text.\<close>

lemma validateParsedDeck_js_null:
  "validateParsedDeck_js (DArr []) DNull = Raised TypeError
   \<and> validateParsedDeck_js (DArr [DObj [(''quantity'', DNum 1)]]) DUndefined = Raised TypeError
   \<and> validateParsedDeck_js DUndefined DUndefined = Raised TypeError
   \<and> parseDeckList_js DUndefined = Raised TypeError
   \<and> parseDeckList_js (DNum 7) = Raised TypeError"
  by (simp add: validateParsedDeck_js_def destructureOptions_def iterate_def cardName_def
        parseDeckList_js_def)





section \<open>Properties of removeDuplicates\<close>

lemma nonBasicKeys_simps:
  "nonBasicKeys [] = {}"
  "nonBasicKeys (c # cs) =
     (if isBasicLand (name c) then nonBasicKeys cs else insert (toLowerCase (name c)) (nonBasicKeys cs))"
  "nonBasicKeys (xs @ ys) = nonBasicKeys xs \<union> nonBasicKeys ys"
  by (auto simp: nonBasicKeys_def)

lemma removeDuplicates_loop_dedup:
  "removeDuplicates_loop deck (seen, result) = (seen \<union> nonBasicKeys deck, result @ dedup seen deck)"
  by (induction deck arbitrary: seen result) (auto simp: nonBasicKeys_simps Let_def)

lemma removeDuplicates_dedup: "removeDuplicates deck = dedup {} deck"
  by (simp add: removeDuplicates_def removeDuplicates_loop_dedup)

lemma isBasicLand_lower:
  "toLowerCase (name a) = toLowerCase (name b) \<Longrightarrow> isBasicLand (name a) = isBasicLand (name b)"
  by (simp add: isBasicLand_def)

lemma dedup_snoc:
  "dedup seen (deck @ [c]) =
     dedup seen deck @
       (if isBasicLand (name c) then [c]
        else if toLowerCase (name c) \<in> seen \<union> nonBasicKeys deck then []
        else [c\<lparr>quantity := 1\<rparr>])"
  by (induction deck arbitrary: seen) (auto simp: nonBasicKeys_simps)

lemma dedup_fixed:
  "\<forall>c \<in> set xs. \<not> isBasicLand (name c) \<longrightarrow> quantity c = 1 \<Longrightarrow>
   distinct (map (\<lambda>c. toLowerCase (name c)) (filter (\<lambda>c. \<not> isBasicLand (name c)) xs)) \<Longrightarrow>
   nonBasicKeys xs \<inter> seen = {} \<Longrightarrow>
   dedup seen xs = xs"
proof (induction xs arbitrary: seen)
  case Nil
  then show ?case by simp
next
  case (Cons c cs)
  show ?case
  proof (cases "isBasicLand (name c)")
    case True
    with Cons.prems have "dedup seen cs = cs"
      by (intro Cons.IH) (auto simp: nonBasicKeys_simps)
    with True show ?thesis by simp
  next
    case False
    with Cons.prems have notin: "toLowerCase (name c) \<notin> seen" and q: "quantity c = 1"
      by (auto simp: nonBasicKeys_simps)
    from False Cons.prems have "toLowerCase (name c) \<notin> nonBasicKeys cs"
      by (auto simp: nonBasicKeys_def)
    with False Cons.prems have "dedup (insert (toLowerCase (name c)) seen) cs = cs"
      by (intro Cons.IH) (auto simp: nonBasicKeys_simps)
    with False notin q show ?thesis by simp
  qed
qed

lemma dedup_output:
  "(\<forall>c \<in> set (dedup seen deck). \<not> isBasicLand (name c) \<longrightarrow> quantity c = 1)
   \<and> distinct (map (\<lambda>c. toLowerCase (name c)) (filter (\<lambda>c. \<not> isBasicLand (name c)) (dedup seen deck)))
   \<and> nonBasicKeys (dedup seen deck) \<inter> seen = {}"
proof (induction deck arbitrary: seen)
  case Nil
  then show ?case by (simp add: nonBasicKeys_simps)
next
  case (Cons c cs)
  show ?case
  proof (cases "isBasicLand (name c)")
    case True
    with Cons.IH [of seen] show ?thesis by (simp add: nonBasicKeys_simps)
  next
    case False
    show ?thesis
    proof (cases "toLowerCase (name c) \<in> seen")
      case True
      with False Cons.IH [of seen] show ?thesis by simp
    next
      case notin: False
      let ?k = "toLowerCase (name c)"
      from Cons.IH [of "insert ?k seen"]
      have ih: "\<forall>c \<in> set (dedup (insert ?k seen) cs). \<not> isBasicLand (name c) \<longrightarrow> quantity c = 1"
        "distinct (map (\<lambda>c. toLowerCase (name c)) (filter (\<lambda>c. \<not> isBasicLand (name c)) (dedup (insert ?k seen) cs)))"
        "nonBasicKeys (dedup (insert ?k seen) cs) \<inter> insert ?k seen = {}"
        by auto
      from ih(3) have "?k \<notin> nonBasicKeys (dedup (insert ?k seen) cs)" by auto
      then have "?k \<notin> (\<lambda>c. toLowerCase (name c)) ` set (filter (\<lambda>c. \<not> isBasicLand (name c)) (dedup (insert ?k seen) cs))"
        by (auto simp: nonBasicKeys_def)
      with False notin ih show ?thesis
        by (auto simp: nonBasicKeys_simps)
    qed
  qed
qed

lemma dedup_idem: "dedup {} (dedup {} deck) = dedup {} deck"
  using dedup_output [of "{}" deck] by (intro dedup_fixed) auto

lemma first_occurrence_snoc:
  fixes deck :: "CardEntry list" and c :: CardEntry
  defines "keep d \<equiv> (\<lambda>i. isBasicLand (name (d ! i))
                     \<or> (\<forall>j<i. toLowerCase (name (d ! j)) \<noteq> toLowerCase (name (d ! i))))"
  defines "out d \<equiv> (\<lambda>i. if isBasicLand (name (d ! i)) then d ! i else (d ! i)\<lparr>quantity := 1\<rparr>)"
  shows "map (out (deck @ [c])) (filter (keep (deck @ [c])) [0..<length (deck @ [c])]) =
         map (out deck) (filter (keep deck) [0..<length deck]) @
           (if isBasicLand (name c) then [c]
            else if toLowerCase (name c) \<in> nonBasicKeys deck then []
            else [c\<lparr>quantity := 1\<rparr>])"
proof -
  have keep_old: "keep (deck @ [c]) i = keep deck i" if "i < length deck" for i
    using that by (auto simp: keep_def nth_append)
  have out_old: "out (deck @ [c]) i = out deck i" if "i < length deck" for i
    using that by (simp add: out_def nth_append)
  have f: "filter (keep (deck @ [c])) [0..<length deck] = filter (keep deck) [0..<length deck]"
    by (rule filter_cong) (auto simp: keep_old)
  have m: "map (out (deck @ [c])) (filter (keep deck) [0..<length deck])
           = map (out deck) (filter (keep deck) [0..<length deck])"
    by (rule map_cong) (auto simp: out_old)
  have last_keep: "keep (deck @ [c]) (length deck) \<longleftrightarrow>
     isBasicLand (name c) \<or> toLowerCase (name c) \<notin> (\<lambda>c. toLowerCase (name c)) ` set deck"
    by (auto simp: keep_def nth_append in_set_conv_nth image_iff) (metis nth_mem)
  have keys: "toLowerCase (name c) \<in> nonBasicKeys deck \<longleftrightarrow>
     toLowerCase (name c) \<in> (\<lambda>c. toLowerCase (name c)) ` set deck" if "\<not> isBasicLand (name c)"
    using that by (auto simp: nonBasicKeys_def dest: isBasicLand_lower)
  have out_last: "out (deck @ [c]) (length deck) = (if isBasicLand (name c) then c else c\<lparr>quantity := 1\<rparr>)"
    by (simp add: out_def)
  show ?thesis
    using last_keep keys
    by (simp add: f m out_last)
qed

text \<open>
  C7. \<open>removeDuplicates\<close> is idempotent, and its result is the input deck, in order, with
  every basic land kept as it is and, of the other entries, exactly those whose
  (case-insensitive) name occurs at no earlier position, each with its quantity set to 1.
\<close>

theorem removeDuplicates_idempotent_first_occurrence:
  "removeDuplicates (removeDuplicates deck) = removeDuplicates deck
   \<and> removeDuplicates deck =
       map (\<lambda>i. if isBasicLand (name (deck ! i)) then deck ! i else (deck ! i)\<lparr>quantity := 1\<rparr>)
         (filter (\<lambda>i. isBasicLand (name (deck ! i))
                     \<or> (\<forall>j<i. toLowerCase (name (deck ! j)) \<noteq> toLowerCase (name (deck ! i))))
            [0..<length deck])"
proof
  show "removeDuplicates (removeDuplicates deck) = removeDuplicates deck"
    by (simp add: removeDuplicates_dedup dedup_idem)
  show "removeDuplicates deck =
       map (\<lambda>i. if isBasicLand (name (deck ! i)) then deck ! i else (deck ! i)\<lparr>quantity := 1\<rparr>)
         (filter (\<lambda>i. isBasicLand (name (deck ! i))
                     \<or> (\<forall>j<i. toLowerCase (name (deck ! j)) \<noteq> toLowerCase (name (deck ! i))))
            [0..<length deck])"
  proof (induction deck rule: rev_induct)
    case Nil
    show ?case by (simp add: removeDuplicates_dedup)
  next
    case (snoc c deck)
    then show ?case
      unfolding first_occurrence_snoc
      by (simp add: removeDuplicates_dedup dedup_snoc)
  qed
qed

theorem removeDuplicates_idempotent_first_occurrence_witness:
  "removeDuplicates (removeDuplicates
     [\<lparr>quantity = 2, name = ''Sol Ring''\<rparr>, \<lparr>quantity = 3, name = ''Forest''\<rparr>,
      \<lparr>quantity = 1, name = ''sol ring''\<rparr>, \<lparr>quantity = 3, name = ''Forest''\<rparr>])
   = [\<lparr>quantity = 1, name = ''Sol Ring''\<rparr>, \<lparr>quantity = 3, name = ''Forest''\<rparr>,
      \<lparr>quantity = 3, name = ''Forest''\<rparr>]"
proof -
  have r: "removeDuplicates
     [\<lparr>quantity = 2, name = ''Sol Ring''\<rparr>, \<lparr>quantity = 3, name = ''Forest''\<rparr>,
      \<lparr>quantity = 1, name = ''sol ring''\<rparr>, \<lparr>quantity = 3, name = ''Forest''\<rparr>]
   = [\<lparr>quantity = 1, name = ''Sol Ring''\<rparr>, \<lparr>quantity = 3, name = ''Forest''\<rparr>,
      \<lparr>quantity = 3, name = ''Forest''\<rparr>]"
    by code_simp
  have "removeDuplicates (removeDuplicates
     [\<lparr>quantity = 2, name = ''Sol Ring''\<rparr>, \<lparr>quantity = 3, name = ''Forest''\<rparr>,
      \<lparr>quantity = 1, name = ''sol ring''\<rparr>, \<lparr>quantity = 3, name = ''Forest''\<rparr>])
    = removeDuplicates
     [\<lparr>quantity = 2, name = ''Sol Ring''\<rparr>, \<lparr>quantity = 3, name = ''Forest''\<rparr>,
      \<lparr>quantity = 1, name = ''sol ring''\<rparr>, \<lparr>quantity = 3, name = ''Forest''\<rparr>]"
    using removeDuplicates_idempotent_first_occurrence by (rule conjunct1)
  with r show ?thesis by (simp only:)
qed

section \<open>Properties of identifyTrends\<close>

text \<open>
  C6. The claim makes the names of the first 3 records \<open>popular\<close> for every list. The
  code fills \<open>popular\<close> only under \<open>if (metaDecks.length >= 3)\<close>: with two records it
  stays empty.
\<close>

theorem identifyTrends_popular_counterexample:
  "popular (identifyTrends parseFloat_exact
     [\<lparr>md_name = ''Atraxa'', url = ''/a'', metaShare = Some ''10%''\<rparr>,
      \<lparr>md_name = ''Kenrith'', url = ''/k'', metaShare = Some ''8%''\<rparr>]) = []
   \<and> map md_name (take 3
     [\<lparr>md_name = ''Atraxa'', url = ''/a'', metaShare = Some ''10%''\<rparr>,
      \<lparr>md_name = ''Kenrith'', url = ''/k'', metaShare = Some ''8%''\<rparr>])
     = [''Atraxa'', ''Kenrith'']"
  by code_simp

text \<open>
  C6, as amended: for every list of records, \<open>popular\<close> holds the names of the first 3
  records in input order, whatever their shares, when the list has at least 3 records, and
  is empty otherwise; \<open>emerging\<close> holds the names of the first at most 3 records whose
  share (the first \<open>%\<close> removed, trimmed, parsed as a float) is a number strictly between
  0 and 5; \<open>declining\<close> is empty.
\<close>

theorem identifyTrends_tiers:
  "popular (identifyTrends parseFloat metaDecks)
     = (if length metaDecks \<ge> 3 then map md_name (take 3 metaDecks) else [])
   \<and> emerging (identifyTrends parseFloat metaDecks)
     = map md_name (take 3 (filter
         (\<lambda>d. \<exists>share. parseFloat (shareStr d) = Number share \<and> 0 < share \<and> share < 5)
         metaDecks))
   \<and> declining (identifyTrends parseFloat metaDecks) = []"
proof -
  have "isLowShare parseFloat = (\<lambda>d. \<exists>share. parseFloat (shareStr d) = Number share \<and> 0 < share \<and> share < 5)"
    by (auto simp: isLowShare_def fun_eq_iff split: jsnumber.splits)
  then show ?thesis
    by (simp add: identifyTrends_def Let_def)
qed
theorem identifyTrends_tiers_witness:
  "popular (identifyTrends parseFloat_exact
     [\<lparr>md_name = ''A'', url = '''', metaShare = Some ''10%''\<rparr>,
      \<lparr>md_name = ''B'', url = '''', metaShare = Some ''8%''\<rparr>,
      \<lparr>md_name = ''C'', url = '''', metaShare = Some ''6%''\<rparr>,
      \<lparr>md_name = ''D'', url = '''', metaShare = Some ''4%''\<rparr>,
      \<lparr>md_name = ''E'', url = '''', metaShare = Some ''2%''\<rparr>]) = [''A'', ''B'', ''C'']
   \<and> declining (identifyTrends parseFloat_exact
     [\<lparr>md_name = ''A'', url = '''', metaShare = Some ''10%''\<rparr>,
      \<lparr>md_name = ''B'', url = '''', metaShare = Some ''8%''\<rparr>,
      \<lparr>md_name = ''C'', url = '''', metaShare = Some ''6%''\<rparr>,
      \<lparr>md_name = ''D'', url = '''', metaShare = Some ''4%''\<rparr>,
      \<lparr>md_name = ''E'', url = '''', metaShare = Some ''2%''\<rparr>]) = []"
  using identifyTrends_tiers [of parseFloat_exact
     "[\<lparr>md_name = ''A'', url = '''', metaShare = Some ''10%''\<rparr>,
      \<lparr>md_name = ''B'', url = '''', metaShare = Some ''8%''\<rparr>,
      \<lparr>md_name = ''C'', url = '''', metaShare = Some ''6%''\<rparr>,
      \<lparr>md_name = ''D'', url = '''', metaShare = Some ''4%''\<rparr>,
      \<lparr>md_name = ''E'', url = '''', metaShare = Some ''2%''\<rparr>]"]
  by simp

text \<open>The example of the specification, with the shares parsed exactly.\<close>

lemma identifyTrends_example:
  "identifyTrends parseFloat_exact
     [\<lparr>md_name = ''A'', url = '''', metaShare = Some ''10%''\<rparr>,
      \<lparr>md_name = ''B'', url = '''', metaShare = Some ''8%''\<rparr>,
      \<lparr>md_name = ''C'', url = '''', metaShare = Some ''6%''\<rparr>,
      \<lparr>md_name = ''D'', url = '''', metaShare = Some ''4%''\<rparr>,
      \<lparr>md_name = ''E'', url = '''', metaShare = Some ''2%''\<rparr>]
   = \<lparr>popular = [''A'', ''B'', ''C''], emerging = [''D'', ''E''], declining = []\<rparr>"
  by code_simp

section \<open>Properties of the ranking and of the engine\<close>

lemma insertBy_set: "set (insertBy cmp x ys) = insert x (set ys)"
  by (induction ys) auto

lemma sortBy_set: "set (sortBy cmp xs) = set xs"
  by (induction xs) (auto simp: sortBy_def insertBy_set)

lemma sortBy_Cons: "sortBy cmp (x # xs) = insertBy cmp x (sortBy cmp xs)"
  by (simp add: sortBy_def)

lemma sortBy_Nil_iff: "sortBy cmp xs = [] \<longleftrightarrow> xs = []"
  using sortBy_set [of cmp xs] by (metis set_empty)

lemma sortBy_head_max:
  assumes "\<forall>p \<in> set xs. \<exists>c. snd p = Num c" and "sortBy byCountDesc xs = e # es"
  shows "\<exists>c. snd e = Num c \<and> (\<forall>p \<in> set xs. \<forall>c'. snd p = Num c' \<longrightarrow> c' \<le> c)"
  using assms
proof (induction xs arbitrary: e es)
  case Nil
  then show ?case by (simp add: sortBy_def)
next
  case (Cons x xs)
  from Cons.prems(1) obtain cx where cx: "snd x = Num cx" by auto
  show ?case
  proof (cases "sortBy byCountDesc xs")
    case Nil
    then have "xs = []" by (simp add: sortBy_Nil_iff)
    with Cons.prems cx show ?thesis by (simp add: sortBy_def)
  next
    case (Cons y ys)
    with Cons.IH [of y ys] Cons.prems(1)
    obtain cy where cy: "snd y = Num cy" and mx: "\<forall>p \<in> set xs. \<forall>c'. snd p = Num c' \<longrightarrow> c' \<le> cy"
      by auto
    from Cons Cons.prems(2) have ins: "insertBy byCountDesc x (y # ys) = e # es"
      by (simp add: sortBy_Cons)
    have cmp: "byCountDesc x y = cy - cx"
      by (simp add: byCountDesc_def minusCounts_def cx cy)
    show ?thesis
    proof (cases "cy \<le> cx")
      case True
      with ins cmp have "e = x"
        by simp
      with cx mx True show ?thesis by fastforce
    next
      case False
      with ins cmp have "e = y"
        by simp
      with cx cy mx False show ?thesis by fastforce
    qed
  qed
qed
text \<open>
  C8. The claim has \<open>getMostCommon\<close> return a \<open>{name, count}\<close> pair. The code returns
  \<open>entries.sort(...)[0][0]\<close>, the key alone, a string (its documentation says
  \<open>@returns {string|null}\<close>).
\<close>

theorem getMostCommon_pair_counterexample:
  "getMostCommon [(''Atraxa'', Num 2), (''Kenrith'', Num 1)] = JString ''Atraxa''
   \<and> getMostCommon [(''Atraxa'', Num 2), (''Kenrith'', Num 1)]
       \<noteq> JObject [(''name'', JString ''Atraxa''), (''count'', JNumber 2)]"
  by code_simp
text \<open>
  C8, as amended: \<open>getMostCommon\<close> returns \<open>null\<close> when the map is empty, and otherwise,
  on a map whose counts are numbers, the name (the key, a string) of an entry whose count
  is maximal in the map.
\<close>

theorem getMostCommon_name:
  "(frequencyMap = [] \<longrightarrow> getMostCommon frequencyMap = JNull)
   \<and> (frequencyMap \<noteq> [] \<and> (\<forall>p \<in> set frequencyMap. \<exists>c. snd p = Num c) \<longrightarrow>
        (\<exists>k c. getMostCommon frequencyMap = JString k \<and> (k, Num c) \<in> set frequencyMap
               \<and> (\<forall>p \<in> set frequencyMap. \<forall>c'. snd p = Num c' \<longrightarrow> c' \<le> c)))"
proof (intro conjI impI)
  assume "frequencyMap = []"
  then show "getMostCommon frequencyMap = JNull"
    by (simp add: getMostCommon_def Object_entries_def)
next
  assume a: "frequencyMap \<noteq> [] \<and> (\<forall>p \<in> set frequencyMap. \<exists>c. snd p = Num c)"
  then have ne: "Object_entries frequencyMap \<noteq> []"
    by (simp add: Object_entries_Nil_iff)
  then obtain e es where s: "sortBy byCountDesc (Object_entries frequencyMap) = e # es"
    by (cases "sortBy byCountDesc (Object_entries frequencyMap)") (auto simp: sortBy_Nil_iff)
  from a have "\<forall>p \<in> set (Object_entries frequencyMap). \<exists>c. snd p = Num c"
    by (simp add: Object_entries_set)
  from sortBy_head_max [OF this s] obtain c where c: "snd e = Num c"
    and mx: "\<forall>p \<in> set frequencyMap. \<forall>c'. snd p = Num c' \<longrightarrow> c' \<le> c"
    by (auto simp: Object_entries_set)
  have "e \<in> set (sortBy byCountDesc (Object_entries frequencyMap))"
    by (simp add: s)
  then have "e \<in> set frequencyMap"
    by (simp add: sortBy_set Object_entries_set)
  with c have mem: "(fst e, Num c) \<in> set frequencyMap"
    by (metis prod.collapse)
  from ne s have "getMostCommon frequencyMap = JString (fst e)"
    by (simp add: getMostCommon_def Let_def)
  with mem mx show "\<exists>k c. getMostCommon frequencyMap = JString k \<and> (k, Num c) \<in> set frequencyMap
               \<and> (\<forall>p \<in> set frequencyMap. \<forall>c'. snd p = Num c' \<longrightarrow> c' \<le> c)"
    by blast
qed

theorem getMostCommon_name_witness:
  "getMostCommon [] = JNull
   \<and> (\<exists>k c. getMostCommon [(''Kenrith'', Num 1), (''Atraxa'', Num 2)] = JString k
            \<and> (k, Num c) \<in> set [(''Kenrith'', Num 1), (''Atraxa'', Num 2)]
            \<and> (\<forall>p \<in> set [(''Kenrith'', Num 1), (''Atraxa'', Num 2)].
                  \<forall>c'. snd p = Num c' \<longrightarrow> c' \<le> c))"
proof
  show "getMostCommon [] = JNull"
    using getMostCommon_name [of "[]"] by simp
  have "[(''Kenrith'', Num 1), (''Atraxa'', Num 2)] \<noteq> []
        \<and> (\<forall>p \<in> set [(''Kenrith'', Num 1), (''Atraxa'', Num (2::int))]. \<exists>c. snd p = Num c)"
    by simp
  with getMostCommon_name [of "[(''Kenrith'', Num 1), (''Atraxa'', Num 2)]"]
  show "\<exists>k c. getMostCommon [(''Kenrith'', Num 1), (''Atraxa'', Num 2)] = JString k
            \<and> (k, Num c) \<in> set [(''Kenrith'', Num 1), (''Atraxa'', Num 2)]
            \<and> (\<forall>p \<in> set [(''Kenrith'', Num 1), (''Atraxa'', Num 2)].
                  \<forall>c'. snd p = Num c' \<longrightarrow> c' \<le> c)"
    by blast
qed
text \<open>
  C3. The claim has \<open>importKnowledge\<close> coerce a payload that is not an array to the empty
  list and \<open>importHistory\<close> raise on it. The code does the opposite: for the JSON text
  \<open>{}\<close>, \<open>importKnowledge\<close> throws and \<open>importHistory\<close> empties the history.
\<close>

theorem import_non_array_counterexample:
  "importKnowledge (Returns (JObject [])) \<lparr>knowledgeBase = [JNull]\<rparr>
     = Inl (Error ''Failed to import knowledge: Invalid knowledge data: expected an array'')
   \<and> importKnowledge (Returns (JObject [])) \<lparr>knowledgeBase = [JNull]\<rparr>
     \<noteq> Inr \<lparr>knowledgeBase = []\<rparr>
   \<and> importHistory (Returns (JObject [])) \<lparr>userHistory = [JNull]\<rparr>
     = Inr \<lparr>userHistory = []\<rparr>"
  by (simp add: importKnowledge_def importHistory_def)
text \<open>
  C3, as amended: both import operations raise an explicit error on malformed JSON and
  store a parsed array; on a parsed payload that is not an array, the history import
  (\<open>importHistory\<close>) silently takes the empty list, while the knowledge import
  (\<open>importKnowledge\<close>) raises an explicit error.
\<close>

theorem import_paths:
  "importHistory (Throws message) eng = Inl (Error (''Failed to import history: '' @ message))
   \<and> importKnowledge (Throws message) kb = Inl (Error (''Failed to import knowledge: '' @ message))
   \<and> importHistory (Returns (JArray xs)) eng = Inr (eng\<lparr>userHistory := xs\<rparr>)
   \<and> importKnowledge (Returns (JArray xs)) kb = Inr (kb\<lparr>knowledgeBase := xs\<rparr>)
   \<and> ((\<forall>ys. data \<noteq> JArray ys) \<longrightarrow>
        importHistory (Returns data) eng = Inr (eng\<lparr>userHistory := []\<rparr>)
        \<and> importKnowledge (Returns data) kb
            = Inl (Error ''Failed to import knowledge: Invalid knowledge data: expected an array''))"
  by (cases data) (simp_all add: importKnowledge_def importHistory_def)

theorem import_paths_witness:
  "importHistory (Throws ''Unexpected end of JSON input'') \<lparr>userHistory = [JNull]\<rparr>
     = Inl (Error ''Failed to import history: Unexpected end of JSON input'')
   \<and> importKnowledge (Throws ''Unexpected end of JSON input'') \<lparr>knowledgeBase = [JNull]\<rparr>
     = Inl (Error ''Failed to import knowledge: Unexpected end of JSON input'')
   \<and> importHistory (Returns (JString ''x'')) \<lparr>userHistory = [JNull]\<rparr> = Inr \<lparr>userHistory = []\<rparr>
   \<and> importKnowledge (Returns (JString ''x'')) \<lparr>knowledgeBase = [JNull]\<rparr>
     = Inl (Error ''Failed to import knowledge: Invalid knowledge data: expected an array'')"
  using import_paths [of "''Unexpected end of JSON input''" "\<lparr>userHistory = [JNull]\<rparr>"
      "\<lparr>knowledgeBase = [JNull]\<rparr>" "[]" "JString ''x''"]
  by simp
text \<open>What the two analyses do to their input: every colour array is sorted.\<close>

lemma analyzeHistory_loop_entries:
  "snd (snd (snd (analyzeHistory_loop hs (a, b, c, acc)))) =
     acc @ map (\<lambda>d. case colors d of None \<Rightarrow> d | Some cs \<Rightarrow> d\<lparr>colors := Some (sort cs)\<rparr>) hs"
  by (induction hs arbitrary: a b c acc) auto

lemma analyzeHistory_entries:
  "userHistory (snd (analyzeHistory this)) =
     map (\<lambda>d. case colors d of None \<Rightarrow> d | Some cs \<Rightarrow> d\<lparr>colors := Some (sort cs)\<rparr>)
       (userHistory this)"
  using analyzeHistory_loop_entries [of "userHistory this" "[]" "[]" "[]" "[]"]
  by (auto simp: analyzeHistory_def split: prod.splits)

lemma analyzeUserPatterns_loop_decks:
  "snd (snd (snd (snd (analyzeUserPatterns_loop ds (a, b, c, t, acc))))) =
     acc @ map (\<lambda>d. case colorIdentity d of None \<Rightarrow> d
                    | Some ci \<Rightarrow> if length ci > 0 then d\<lparr>colorIdentity := Some (sort ci)\<rparr> else d) ds"
  by (induction ds arbitrary: a b c t acc) auto

lemma analyzeUserPatterns_decks:
  "snd (analyzeUserPatterns decks) =
     map (\<lambda>d. case colorIdentity d of None \<Rightarrow> d
              | Some ci \<Rightarrow> if length ci > 0 then d\<lparr>colorIdentity := Some (sort ci)\<rparr> else d) decks"
  using analyzeUserPatterns_loop_decks [of decks "[]" "[]" "[]" "[]" "[]"]
  by (auto simp: analyzeUserPatterns_def split: prod.splits)

text \<open>
  C5. Neither analysis leaves its input unchanged: \<open>deck.colorIdentity.sort()\<close> in
  \<open>analyzeUserPatterns\<close> and \<open>deck.colors.sort()\<close> in \<open>analyzeHistory\<close> sort the
  array of the input deck, respectively of the stored history entry, in place.
\<close>

theorem analyze_sorts_in_place:
  "snd (analyzeUserPatterns
      [\<lparr>format = Some ''commander'', deckCommanders = None,
        colorIdentity = Some [''U'', ''B''], deckName = None\<rparr>])
     = [\<lparr>format = Some ''commander'', deckCommanders = None,
         colorIdentity = Some [''B'', ''U''], deckName = None\<rparr>]
   \<and> snd (analyzeUserPatterns
      [\<lparr>format = Some ''commander'', deckCommanders = None,
        colorIdentity = Some [''U'', ''B''], deckName = None\<rparr>])
     \<noteq> [\<lparr>format = Some ''commander'', deckCommanders = None,
         colorIdentity = Some [''U'', ''B''], deckName = None\<rparr>]
   \<and> userHistory (snd (analyzeHistory
      \<lparr>userHistory = [\<lparr>commander = Some ''Atraxa'', strategy = None,
         colors = Some [''W'', ''U'', ''B'', ''G''], deckCards = None,
         timestamp = ''2024-01-01T00:00:00.000Z''\<rparr>]\<rparr>))
     = [\<lparr>commander = Some ''Atraxa'', strategy = None,
         colors = Some [''B'', ''G'', ''U'', ''W''], deckCards = None,
         timestamp = ''2024-01-01T00:00:00.000Z''\<rparr>]
   \<and> userHistory (snd (analyzeHistory
      \<lparr>userHistory = [\<lparr>commander = Some ''Atraxa'', strategy = None,
         colors = Some [''W'', ''U'', ''B'', ''G''], deckCards = None,
         timestamp = ''2024-01-01T00:00:00.000Z''\<rparr>]\<rparr>))
     \<noteq> [\<lparr>commander = Some ''Atraxa'', strategy = None,
         colors = Some [''W'', ''U'', ''B'', ''G''], deckCards = None,
         timestamp = ''2024-01-01T00:00:00.000Z''\<rparr>]"
  by code_simp

text \<open>
  C10. \<open>identifyGaps\<close> returns the same gaps (and leaves the same state) for any two
  values of its \<open>profileAnalysis\<close> argument, of whatever types: the gaps are the colour
  gaps and the strategy gaps of the engine's own history.
\<close>

theorem identifyGaps_ignores_profileAnalysis:
  "identifyGaps profileAnalysis1 this = identifyGaps profileAnalysis2 this
   \<and> fst (identifyGaps profileAnalysis1 this)
       = colorGaps (colorCounts (fst (analyzeHistory this)))
         @ strategyGaps (strategies (fst (analyzeHistory this)))"
  by (simp add: identifyGaps_def split: prod.splits)

end
